theory Spec2Isabelle
  imports Main "HOL-Library.AList" "HOL-Library.Multiset"
begin

section \<open>Values and document trees\<close>

text \<open>
  The collector handles values that come out of JSON, YAML and TOML parsers and are only
  cast to the declared TypeScript types, so a field of a record is a JavaScript value:
  \<open>JUndefined\<close> is a missing property, \<open>JNull\<close> the value \<^verbatim>\<open>null\<close>. Numbers are
  never computed with and are carried as integers. Strings are sequences of code units;
  \<open>length\<close> and \<open>take\<close> count code units as \<^verbatim>\<open>String.prototype.length\<close> and
  \<^verbatim>\<open>slice\<close> do.
\<close>

datatype jsval =
    JUndefined
  | JNull
  | JBool bool
  | JNum int
  | JStr string
  | JArr "jsval list"
  | JObj "(string \<times> jsval) list"

text \<open>\<^verbatim>\<open>v == null\<close>: true of \<^verbatim>\<open>null\<close> and \<^verbatim>\<open>undefined\<close> only.\<close>

definition nullish :: "jsval \<Rightarrow> bool" where
  "nullish v = (v = JUndefined \<or> v = JNull)"

text \<open>\<^verbatim>\<open>a ?? b\<close>.\<close>

definition coalesce :: "jsval \<Rightarrow> jsval \<Rightarrow> jsval" where
  "coalesce a b = (if nullish a then b else a)"

text \<open>
  A unist node: its \<^verbatim>\<open>type\<close>, its \<^verbatim>\<open>value\<close> and \<^verbatim>\<open>url\<close> (\<open>JUndefined\<close> when the
  node has none) and its \<^verbatim>\<open>children\<close> (\<open>None\<close> when the node has no such property).
\<close>

datatype Node =
  Node (node_type: string) (node_value: jsval) (node_url: jsval) (node_children: "Node list option")

subsection \<open>Text extraction\<close>

text \<open>
  The literal carried by a leaf: \<^verbatim>\<open>["text", "inlineCode"].includes(node.type) &&
  typeof node.value === "string"\<close>.
\<close>

definition literalOf :: "string \<Rightarrow> jsval \<Rightarrow> string option" where
  "literalOf ty val =
     (if ty \<in> set [''text'', ''inlineCode'']
      then (case val of JStr s \<Rightarrow> Some s | _ \<Rightarrow> None) else None)"

text \<open>\<^verbatim>\<open>visitor != null && !visitor(node)\<close>.\<close>

definition rejects :: "(Node \<Rightarrow> bool) option \<Rightarrow> Node \<Rightarrow> bool" where
  "rejects visitor node = (case visitor of Some v \<Rightarrow> \<not> v node | None \<Rightarrow> False)"

fun findTexts :: "Node \<Rightarrow> (Node \<Rightarrow> bool) option \<Rightarrow> string list"
  and findTextsIn :: "Node list \<Rightarrow> (Node \<Rightarrow> bool) option \<Rightarrow> string list" where
  "findTexts (Node ty val url cs) visitor =
     (if rejects visitor (Node ty val url cs) then []
      else (case literalOf ty val of
              Some s \<Rightarrow> [s]
            | None \<Rightarrow>
                (case cs of
                   Some children \<Rightarrow> findTextsIn children visitor
                 | None \<Rightarrow> if ty \<in> set [''code'', ''image''] then [''...''] else [])))"
| "findTextsIn [] visitor = []"
| "findTextsIn (child # children) visitor =
     findTexts child visitor @ findTextsIn children visitor"

text \<open>\<^verbatim>\<open>Array.prototype.join\<close> on strings.\<close>

fun join :: "string \<Rightarrow> string list \<Rightarrow> string" where
  "join sep [] = []"
| "join sep [x] = x"
| "join sep (x # y # ys) = x @ sep @ join sep (y # ys)"

fun extractTitle :: "Node \<Rightarrow> string option"
  and extractTitleIn :: "Node list \<Rightarrow> string option" where
  "extractTitle (Node ty val url cs) =
     (if ty = ''heading'' then Some (join '' '' (findTexts (Node ty val url cs) None))
      else (case cs of Some children \<Rightarrow> extractTitleIn children | None \<Rightarrow> None))"
| "extractTitleIn [] = None"
| "extractTitleIn (child # children) =
     (case extractTitle child of Some title \<Rightarrow> Some title | None \<Rightarrow> extractTitleIn children)"

text \<open>
  The characters matched by \<^verbatim>\<open>\s\<close> among the code units below 256: tab, line feed,
  vertical tab, form feed, carriage return, space and no-break space.
\<close>

definition isSpace :: "char \<Rightarrow> bool" where
  "isSpace c = ((of_char c :: nat) \<in> set [9, 10, 11, 12, 13, 32, 160])"

text \<open>
  \<^verbatim>\<open>s.replace(/(^\s|\s$)/, "")\<close>. The pattern has no \<^verbatim>\<open>g\<close> flag, so only the
  leftmost match is replaced: one white-space character at the start, or else one at the end.
\<close>

definition replaceEdgeSpace :: "string \<Rightarrow> string" where
  "replaceEdgeSpace s =
     (case s of
        [] \<Rightarrow> []
      | c # cs \<Rightarrow>
          if isSpace c then cs
          else if isSpace (last (c # cs)) then butlast (c # cs)
          else c # cs)"

text \<open>
  \<^verbatim>\<open>s.replace(/\s+/, " ")\<close>: again without \<^verbatim>\<open>g\<close>, so the leftmost run of white space
  becomes one space and the rest of the string is kept.
\<close>

definition replaceSpaceRun :: "string \<Rightarrow> string" where
  "replaceSpaceRun s =
     (case dropWhile (\<lambda>c. \<not> isSpace c) s of
        [] \<Rightarrow> s
      | r # rs \<Rightarrow> takeWhile (\<lambda>c. \<not> isSpace c) s @ '' '' @ dropWhile isSpace rs)"

text \<open>\<^verbatim>\<open>s.slice(0, e)\<close>: a negative end counts from the end of the string.\<close>

definition slice0 :: "string \<Rightarrow> int \<Rightarrow> string" where
  "slice0 s e = (if e < 0 then take (nat (int (length s) + e)) s else take (nat e) s)"

record DescriptionOptions =
  maxLength :: "int option"
  ellipsis :: "string option"

definition notHeading :: "Node \<Rightarrow> bool" where
  "notHeading node = (if node_type node = ''heading'' then False else True)"

text \<open>The string the description is cut from (\<^verbatim>\<open>source\<close> in \<^verbatim>\<open>extractDescription\<close>).\<close>

definition descriptionSource :: "Node \<Rightarrow> string" where
  "descriptionSource node =
     replaceSpaceRun (replaceEdgeSpace (join '' '' (findTexts node (Some notHeading))))"

definition maxLengthOf :: "DescriptionOptions option \<Rightarrow> int" where
  "maxLengthOf options =
     (case options of
        Some opts \<Rightarrow> (case maxLength opts of Some m \<Rightarrow> m | None \<Rightarrow> 200)
      | None \<Rightarrow> 200)"

definition ellipsisOf :: "DescriptionOptions option \<Rightarrow> string" where
  "ellipsisOf options =
     (case options of
        Some opts \<Rightarrow> (case ellipsis opts of Some e \<Rightarrow> e | None \<Rightarrow> ''...'')
      | None \<Rightarrow> ''...'')"

definition extractDescription :: "Node \<Rightarrow> DescriptionOptions option \<Rightarrow> string" where
  "extractDescription node options =
     (let source = descriptionSource node
      in if int (length source) \<le> maxLengthOf options then source
         else slice0 source (maxLengthOf options - int (length (ellipsisOf options)))
              @ ellipsisOf options)"

fun extractImages :: "Node \<Rightarrow> jsval list"
  and extractImagesIn :: "Node list \<Rightarrow> jsval list" where
  "extractImages (Node ty val url cs) =
     (if ty = ''image'' then [url]
      else (case cs of Some children \<Rightarrow> extractImagesIn children | None \<Rightarrow> []))"
| "extractImagesIn [] = []"
| "extractImagesIn (child # children) = extractImages child @ extractImagesIn children"

section \<open>Data model\<close>

record Config =
  untitled :: "string option"
  dumpArticleMetadata :: bool
  dumpArticleAST :: bool
  dumpArticleHTML :: bool
  dumpTagMetadata :: bool

record ArticleIndex =
  path :: string
  status :: jsval
  published_time :: jsval

record ArticleMetadata = ArticleIndex +
  sourceType :: string
  sourcePath :: string
  title :: jsval
  description :: jsval
  tags :: jsval
  images :: jsval
  modified_time :: jsval

definition makeArticleIndex :: "ArticleMetadata \<Rightarrow> ArticleIndex" where
  "makeArticleIndex a = \<lparr>path = path a, status = status a, published_time = published_time a\<rparr>"

datatype TagMetadata =
  TagMetadata (tag_key: string) (tag_title: jsval) (tag_article: "ArticleMetadata option")

text \<open>
  An object used as a dictionary is the list of its own properties in the order they were
  created.
\<close>

type_synonym 'a object = "(string \<times> 'a) list"

record ArticleRegistry =
  articles :: "ArticleMetadata object"
  orderedArticles :: "ArticleIndex list"

record TagRegistry =
  registry_tags :: "TagMetadata object"
  tagToArticles :: "ArticleIndex object object"

section \<open>Frontmatter\<close>

text \<open>
  A \<^verbatim>\<open>FrontMatter\<close> is an open mapping from keys to values. The three parsers are
  libraries: they are parameters of the model, and each either fails with a message or
  returns an object, or nothing (\<^verbatim>\<open>null\<close> or \<^verbatim>\<open>undefined\<close>, as for an empty
  document). A parser is handed the value the code passes to it.
\<close>

type_synonym FrontMatter = "string \<rightharpoonup> jsval"

type_synonym parser = "jsval \<Rightarrow> string + FrontMatter option"

text \<open>
  The state of \<^verbatim>\<open>Object.prototype\<close>: the properties a run has added to it, which every
  plain object then inherits. It is empty when a run starts. The values a run adds are
  article indices, as objects. The platform and the libraries are taken not to read them;
  the reads of the collector itself are modelled.
\<close>

type_synonym prototype = "jsval object"

definition indexObject :: "ArticleIndex \<Rightarrow> jsval" where
  "indexObject a =
     JObj [(''path'', JStr (path a)), (''status'', status a),
           (''published_time'', published_time a)]"

text \<open>Reading an added property through the prototype chain.\<close>

definition inherited :: "prototype \<Rightarrow> string \<Rightarrow> jsval" where
  "inherited pr k = (case map_of pr k of Some v \<Rightarrow> v | None \<Rightarrow> JUndefined)"

text \<open>
  Reading a property of the merged frontmatter, \<^verbatim>\<open>frontmatter[k]\<close>: the merged
  frontmatter is a plain object, so a key it does not have is looked up in
  \<^verbatim>\<open>Object.prototype\<close>.
\<close>

definition getProp :: "prototype \<Rightarrow> FrontMatter \<Rightarrow> string \<Rightarrow> jsval" where
  "getProp pr fm k = (case fm k of Some v \<Rightarrow> v | None \<Rightarrow> inherited pr k)"

text \<open>
  JavaScript numbers as the comparator of the sort sees them: \<^verbatim>\<open>Date.parse\<close> returns a
  whole number of milliseconds or \<^verbatim>\<open>NaN\<close>, and the sort reads only the sign of a
  difference, which floating-point subtraction of two such numbers keeps.
\<close>

datatype number = NaN | Finite int

fun minus_number :: "number \<Rightarrow> number \<Rightarrow> number" where
  "minus_number (Finite a) (Finite b) = Finite (a - b)"
| "minus_number _ _ = NaN"

fun negate :: "number \<Rightarrow> number" where
  "negate (Finite a) = Finite (- a)"
| "negate NaN = NaN"

text \<open>The services of the platform and of the libraries that the collector calls.\<close>

record Env =
  parse :: "string \<Rightarrow> Node"
  tomlParse :: parser
  yamlSafeLoad :: parser
  jsonParse :: parser
  dateParse :: "jsval \<Rightarrow> number"
  localeCompare :: "string \<Rightarrow> string \<Rightarrow> int"
  toPropertyKey :: "jsval \<Rightarrow> string"
  pathJoin :: "string list \<Rightarrow> string"
  pathDirname :: "string \<Rightarrow> string"
  pathSep :: string
  stringifyAST :: "Node \<Rightarrow> string"
  stringifyArticles :: "ArticleRegistry \<Rightarrow> string"
  stringifyTags :: "TagRegistry \<Rightarrow> string"
  renderHTML :: "Node \<Rightarrow> string + string"

text \<open>
  The file system as the run reads it: which paths exist, what reading a file returns
  (\<open>None\<close> when the read fails), what a glob pattern matches, and whether creating a
  directory succeeds. The run reads under \<^verbatim>\<open>articles\<close> and \<^verbatim>\<open>tags\<close> and writes under
  \<^verbatim>\<open>generated\<close>; what it does to the file system is recorded as a list of effects, oldest
  first.
\<close>

record World =
  fsExists :: "string \<Rightarrow> bool"
  fsReadFile :: "string \<Rightarrow> string option"
  globFiles :: "string \<Rightarrow> string list"
  fsMkdirOk :: "string \<Rightarrow> bool"
  fsWriteOk :: "string \<Rightarrow> bool"

datatype effect = Mkdir string | WriteFile string string

text \<open>
  The exceptions of a run. \<open>Unfollowed\<close> is not one of them: it marks the point where a
  run has changed a built-in object in a way whose consequences lie in the platform and the
  libraries, and the model says nothing about the rest of that run.
\<close>

datatype error =
    ArticlesMissing
  | SyntaxError string
  | ReadError string
  | MkdirError string
  | WriteError string
  | RenderError string
  | TypeError
  | Unfollowed string

definition parsed :: "string + FrontMatter option \<Rightarrow> error + FrontMatter option" where
  "parsed r = (case r of Inl msg \<Rightarrow> Inl (SyntaxError msg) | Inr fm \<Rightarrow> Inr fm)"

fun extractFrontmatter :: "Env \<Rightarrow> Node \<Rightarrow> error + FrontMatter option"
  and extractFrontmatterIn :: "Env \<Rightarrow> Node list \<Rightarrow> error + FrontMatter option" where
  "extractFrontmatter env (Node ty val url cs) =
     (if ty \<in> set [''yaml'', ''toml'']
      then (if ty = ''toml'' then parsed (tomlParse env val) else parsed (yamlSafeLoad env val))
      else (case cs of
              Some children \<Rightarrow> extractFrontmatterIn env children
            | None \<Rightarrow> Inr None))"
| "extractFrontmatterIn env [] = Inr None"
| "extractFrontmatterIn env (child # children) =
     (case extractFrontmatter env child of
        Inl e \<Rightarrow> Inl e
      | Inr (Some frontmatter) \<Rightarrow> Inr (Some frontmatter)
      | Inr None \<Rightarrow> extractFrontmatterIn env children)"

text \<open>\<^verbatim>\<open>p.replace(/\.md$/, r)\<close>: a final \<^verbatim>\<open>.md\<close> is replaced, any other path is kept.\<close>

definition replaceMd :: "string \<Rightarrow> string \<Rightarrow> string" where
  "replaceMd p r =
     (if 3 \<le> length p \<and> drop (length p - 3) p = ''.md'' then take (length p - 3) p @ r else p)"

fun probeMetadata :: "Env \<Rightarrow> World \<Rightarrow> string \<Rightarrow> string list \<Rightarrow> error + FrontMatter option" where
  "probeMetadata env w markdownPath [] = Inr None"
| "probeMetadata env w markdownPath (metadataExt # exts) =
     (let metadataPath = replaceMd markdownPath (''.blog'' @ metadataExt)
      in if fsExists w metadataPath
         then (case fsReadFile w metadataPath of
                 None \<Rightarrow> Inl (ReadError metadataPath)
               | Some metadataString \<Rightarrow>
                   if metadataExt = ''.json'' then parsed (jsonParse env (JStr metadataString))
                   else if metadataExt = ''.toml'' then parsed (tomlParse env (JStr metadataString))
                   else parsed (yamlSafeLoad env (JStr metadataString)))
         else probeMetadata env w markdownPath exts)"

definition findMetadataFrontmatter :: "Env \<Rightarrow> World \<Rightarrow> string \<Rightarrow> error + FrontMatter option" where
  "findMetadataFrontmatter env w markdownPath =
     probeMetadata env w markdownPath [''.json'', ''.yml'', ''.yaml'', ''.toml'']"

text \<open>\<^verbatim>\<open>{...x}\<close>: spreading \<^verbatim>\<open>undefined\<close> or \<^verbatim>\<open>null\<close> copies nothing.\<close>

definition spread :: "FrontMatter option \<Rightarrow> FrontMatter" where
  "spread x = (case x of Some fm \<Rightarrow> fm | None \<Rightarrow> Map.empty)"

text \<open>
  The merged frontmatter of \<^verbatim>\<open>collectArticle\<close>: \<^verbatim>\<open>{...markdownFrontmatter,
  ...metadataFrontmatter}\<close> when one of them was found, and
  \<^verbatim>\<open>metadataFrontmatter ?? markdownFrontmatter ?? {}\<close> otherwise.
\<close>

definition mergeFrontmatter :: "FrontMatter option \<Rightarrow> FrontMatter option \<Rightarrow> FrontMatter" where
  "mergeFrontmatter markdownFrontmatter metadataFrontmatter =
     (if metadataFrontmatter \<noteq> None \<or> markdownFrontmatter \<noteq> None
      then spread markdownFrontmatter ++ spread metadataFrontmatter
      else (case metadataFrontmatter of
              Some fm \<Rightarrow> fm
            | None \<Rightarrow> (case markdownFrontmatter of Some fm \<Rightarrow> fm | None \<Rightarrow> Map.empty)))"

section \<open>Articles\<close>

definition ofTitle :: "string option \<Rightarrow> jsval" where
  "ofTitle t = (case t of Some s \<Rightarrow> JStr s | None \<Rightarrow> JUndefined)"

text \<open>
  \<^verbatim>\<open>config.untitled ?? "(Untitled)"\<close>. The configuration is a plain object: when it
  has no \<^verbatim>\<open>untitled\<close> of its own, the read goes to \<^verbatim>\<open>Object.prototype\<close>.
\<close>

definition untitledOf :: "prototype \<Rightarrow> Config \<Rightarrow> jsval" where
  "untitledOf pr config =
     coalesce (case untitled config of Some u \<Rightarrow> JStr u | None \<Rightarrow> inherited pr ''untitled'')
       (JStr ''(Untitled)'')"

text \<open>
  \<^verbatim>\<open>v.k\<close> for a value that is neither \<^verbatim>\<open>null\<close> nor \<^verbatim>\<open>undefined\<close> and the
  keys the collector reads (\<^verbatim>\<open>title\<close>, \<^verbatim>\<open>description\<close>, \<^verbatim>\<open>images\<close>,
  \<^verbatim>\<open>status\<close>, \<^verbatim>\<open>published_time\<close>, \<^verbatim>\<open>modified_time\<close>). None of them is a
  property of a primitive or of an array, so only an object can have one of its own; every
  other read ends in \<^verbatim>\<open>Object.prototype\<close>. The objects the parsers return are taken
  to be plain objects.
\<close>

definition optField :: "prototype \<Rightarrow> jsval \<Rightarrow> string \<Rightarrow> jsval" where
  "optField pr v k =
     (case v of
        JObj ps \<Rightarrow> (case map_of ps k of Some x \<Rightarrow> x | None \<Rightarrow> inherited pr k)
      | _ \<Rightarrow> inherited pr k)"

text \<open>\<^verbatim>\<open>frontmatter["x-kleinboy"]?.k\<close>.\<close>

definition kleinboyField :: "prototype \<Rightarrow> FrontMatter \<Rightarrow> string \<Rightarrow> jsval" where
  "kleinboyField pr frontmatter k =
     (if nullish (getProp pr frontmatter ''x-kleinboy'') then JUndefined
      else optField pr (getProp pr frontmatter ''x-kleinboy'') k)"

text \<open>
  The record assembled by \<^verbatim>\<open>collectArticle\<close> from the merged frontmatter and the tree.
\<close>

definition articleMetadataOf ::
  "prototype \<Rightarrow> Config \<Rightarrow> string \<Rightarrow> string \<Rightarrow> FrontMatter \<Rightarrow> Node \<Rightarrow> ArticleMetadata" where
  "articleMetadataOf pr config markdownPath articlePath frontmatter markdownAST =
     \<lparr>path = articlePath,
      status = kleinboyField pr frontmatter ''status'',
      published_time =
        coalesce (kleinboyField pr frontmatter ''published_time'')
          (getProp pr frontmatter ''date''),
      sourceType = ''markdown'',
      sourcePath = markdownPath,
      title =
        coalesce (coalesce (kleinboyField pr frontmatter ''title'')
                    (ofTitle (extractTitle markdownAST)))
          (untitledOf pr config),
      description =
        coalesce (kleinboyField pr frontmatter ''description'')
          (JStr (extractDescription markdownAST None)),
      tags = getProp pr frontmatter ''tags'',
      images =
        coalesce (kleinboyField pr frontmatter ''images'') (JArr (extractImages markdownAST)),
      modified_time =
        coalesce (kleinboyField pr frontmatter ''modified_time'')
          (getProp pr frontmatter ''date'')\<rparr>"

text \<open>
  The debug dumps. Creating the directory is awaited and its failure propagates; the
  write that follows is issued and not awaited, so it is recorded and cannot fail the run.
\<close>

definition dumpAST ::
  "Env \<Rightarrow> World \<Rightarrow> ArticleMetadata \<Rightarrow> Node \<Rightarrow> effect list \<Rightarrow> (error + unit) \<times> effect list" where
  "dumpAST env w articleMetadata markdownAST fx =
     (let astPath = pathJoin env [''generated'', ''ast'', path articleMetadata @ ''.json'']
      in if fsMkdirOk w (pathDirname env astPath)
         then (Inr (),
               fx @ [Mkdir (pathDirname env astPath),
                     WriteFile astPath (stringifyAST env markdownAST)])
         else (Inl (MkdirError (pathDirname env astPath)), fx))"

definition dumpHTML ::
  "Env \<Rightarrow> World \<Rightarrow> ArticleMetadata \<Rightarrow> Node \<Rightarrow> effect list \<Rightarrow> (error + unit) \<times> effect list" where
  "dumpHTML env w articleMetadata markdownAST fx =
     (let htmlPath = pathJoin env [''generated'', ''html'', path articleMetadata @ ''.html'']
      in if fsMkdirOk w (pathDirname env htmlPath)
         then (case renderHTML env markdownAST of
                 Inl msg \<Rightarrow> (Inl (RenderError msg), fx @ [Mkdir (pathDirname env htmlPath)])
               | Inr html \<Rightarrow>
                   (Inr (), fx @ [Mkdir (pathDirname env htmlPath), WriteFile htmlPath html]))
         else (Inl (MkdirError (pathDirname env htmlPath)), fx))"

text \<open>
  The properties that \<^verbatim>\<open>collectArticle\<close> reads from objects that may not have them:
  \<^verbatim>\<open>children\<close>, \<^verbatim>\<open>value\<close> and \<^verbatim>\<open>url\<close> of a node (the traversals test
  \<^verbatim>\<open>"children" in node\<close>), and the two debug flags, which are optional in the
  configuration and false here when they are missing. Once a property of one of these names
  has been added to \<^verbatim>\<open>Object.prototype\<close>, an object without it inherits it.
\<close>

definition inheritableReads :: "string list" where
  "inheritableReads =
     [''children'', ''value'', ''url'', ''dumpArticleAST'', ''dumpArticleHTML'']"

text \<open>
  \<open>collectArticle\<close>, under a given state of \<^verbatim>\<open>Object.prototype\<close>. A run in which
  one of the properties above has been added is not followed.
\<close>

definition collectArticle ::
  "Env \<Rightarrow> World \<Rightarrow> Config \<Rightarrow> prototype \<Rightarrow> string \<Rightarrow> string \<Rightarrow> effect list
     \<Rightarrow> (error + ArticleMetadata) \<times> effect list" where
  "collectArticle env w config pr markdownPath articlePath fx =
     (case find (\<lambda>k. map_of pr k \<noteq> None) inheritableReads of
        Some k \<Rightarrow> (Inl (Unfollowed k), fx)
      | None \<Rightarrow>
       (case fsReadFile w markdownPath of
          None \<Rightarrow> (Inl (ReadError markdownPath), fx)
        | Some markdownString \<Rightarrow>
            (let markdownAST = parse env markdownString
             in case extractFrontmatter env markdownAST of
                  Inl e \<Rightarrow> (Inl e, fx)
                | Inr markdownFrontmatter \<Rightarrow>
                    (case findMetadataFrontmatter env w markdownPath of
                       Inl e \<Rightarrow> (Inl e, fx)
                     | Inr metadataFrontmatter \<Rightarrow>
                         (let frontmatter =
                                mergeFrontmatter markdownFrontmatter metadataFrontmatter;
                              articleMetadata =
                                articleMetadataOf pr config markdownPath articlePath frontmatter
                                  markdownAST
                          in case (if dumpArticleAST config
                                   then dumpAST env w articleMetadata markdownAST fx
                                   else (Inr (), fx)) of
                               (Inl e, fx1) \<Rightarrow> (Inl e, fx1)
                             | (Inr _, fx1) \<Rightarrow>
                                 (case (if dumpArticleHTML config
                                        then dumpHTML env w articleMetadata markdownAST fx1
                                        else (Inr (), fx1)) of
                                    (Inl e, fx2) \<Rightarrow> (Inl e, fx2)
                                  | (Inr _, fx2) \<Rightarrow> (Inr articleMetadata, fx2)))))))"

section \<open>Objects as dictionaries\<close>

text \<open>
  The registries are plain objects created by \<^verbatim>\<open>{}\<close>, so they inherit the properties
  of \<^verbatim>\<open>Object.prototype\<close>. Reading \<^verbatim>\<open>m[k]\<close> finds an own property first and an
  inherited one otherwise; these are the names every plain object inherits.
\<close>

definition objectPrototypeNames :: "string list" where
  "objectPrototypeNames =
     [''constructor'', ''__defineGetter__'', ''__defineSetter__'', ''hasOwnProperty'',
      ''__lookupGetter__'', ''__lookupSetter__'', ''isPrototypeOf'', ''propertyIsEnumerable'',
      ''toString'', ''valueOf'', ''__proto__'', ''toLocaleString'']"

text \<open>
  \<^verbatim>\<open>o[k] = v\<close> creates or overwrites the own property \<open>k\<close>, keeping its place. The
  key \<^verbatim>\<open>__proto__\<close> is the accessor inherited from \<^verbatim>\<open>Object.prototype\<close>: assigning
  to it replaces the prototype and creates no own property.
\<close>

definition setProp :: "'a object \<Rightarrow> string \<Rightarrow> 'a \<Rightarrow> 'a object" where
  "setProp obj k v = (if k = ''__proto__'' then obj else AList.update k v obj)"

text \<open>
  The own properties in the order \<^verbatim>\<open>Object.keys\<close> and \<^verbatim>\<open>Object.values\<close> list them:
  array indices (canonical decimal numerals below \<open>2^32 - 1\<close>) in ascending order first,
  then the other keys in creation order.
\<close>

definition indexValue :: "string \<Rightarrow> nat" where
  "indexValue k = foldl (\<lambda>n c. 10 * n + (of_char c - 48)) 0 k"

definition isArrayIndex :: "string \<Rightarrow> bool" where
  "isArrayIndex k =
     (case k of
        [] \<Rightarrow> False
      | c # cs \<Rightarrow>
          list_all (\<lambda>d. 48 \<le> (of_char d :: nat) \<and> (of_char d :: nat) \<le> 57) (c # cs)
          \<and> (cs = [] \<or> c \<noteq> CHR ''0'')
          \<and> indexValue (c # cs) < 2 ^ 32 - 1)"

definition ownEntries :: "'a object \<Rightarrow> 'a object" where
  "ownEntries obj =
     sort_key (\<lambda>e. indexValue (fst e)) (filter (\<lambda>e. isArrayIndex (fst e)) obj)
     @ filter (\<lambda>e. \<not> isArrayIndex (fst e)) obj"

definition objectKeys :: "'a object \<Rightarrow> string list" where
  "objectKeys obj = map fst (ownEntries obj)"

definition objectValues :: "'a object \<Rightarrow> 'a list" where
  "objectValues obj = map snd (ownEntries obj)"

text \<open>
  What \<^verbatim>\<open>getOrPrepare\<close> returns, that is, what \<^verbatim>\<open>m[k]\<close> is once it is not
  \<^verbatim>\<open>null\<close>: an own value of the dictionary (found, or prepared and stored); the
  built-in object that a name of \<^verbatim>\<open>Object.prototype\<close> yields; or a value that the run
  has added to \<^verbatim>\<open>Object.prototype\<close> under that name.
\<close>

datatype 'a slot = Own 'a | Builtin | Added jsval

definition getOrPrepare ::
  "prototype \<Rightarrow> 'a object \<Rightarrow> string \<Rightarrow> (string \<Rightarrow> 'a) \<Rightarrow> 'a slot \<times> 'a object" where
  "getOrPrepare pr m k ifNone =
     (case map_of m k of
        Some v \<Rightarrow> (Own v, m)
      | None \<Rightarrow>
          if k \<in> set objectPrototypeNames then (Builtin, m)
          else if \<not> nullish (inherited pr k) then (Added (inherited pr k), m)
          else (let v = ifNone k in (Own v, setProp m k v)))"

text \<open>
  The names for which a write onto a built-in function has consequences: the properties
  of functions, the static methods of \<^verbatim>\<open>Object\<close>, and what functions inherit.
\<close>

definition functionPropertyNames :: "string list" where
  "functionPropertyNames =
     [''length'', ''name'', ''prototype'', ''arguments'', ''caller'', ''apply'', ''bind'',
      ''call'', ''assign'', ''create'', ''defineProperties'', ''defineProperty'', ''entries'',
      ''freeze'', ''fromEntries'', ''getOwnPropertyDescriptor'', ''getOwnPropertyDescriptors'',
      ''getOwnPropertyNames'', ''getOwnPropertySymbols'', ''getPrototypeOf'', ''groupBy'',
      ''hasOwn'', ''is'', ''isExtensible'', ''isFrozen'', ''isSealed'', ''keys'',
      ''preventExtensions'', ''seal'', ''setPrototypeOf'', ''values'']
     @ objectPrototypeNames"

text \<open>
  \<^verbatim>\<open>getOrPrepare(m, k1, ...)[k2] = value\<close>. The returned object is updated in place.
  \<^item> When it is the dictionary's own entry, that entry changes.
  \<^item> For \<open>k1 = __proto__\<close> it is \<^verbatim>\<open>Object.prototype\<close> itself: the index becomes a
    property that every plain object inherits. Its own \<^verbatim>\<open>__proto__\<close> cannot be set,
    which is a \<^verbatim>\<open>TypeError\<close>; replacing one of its methods is not followed.
  \<^item> For another name of \<^verbatim>\<open>Object.prototype\<close> it is a built-in function
    (\<^verbatim>\<open>Object\<close> for \<^verbatim>\<open>constructor\<close>): the write lands there and the dictionary stays
    as it is; a write under the name of a property of functions is not followed.
  \<^item> When it is an index added to \<^verbatim>\<open>Object.prototype\<close> earlier, that index gets the
    new property.
\<close>

definition register ::
  "prototype \<Rightarrow> ArticleIndex object object \<Rightarrow> string \<Rightarrow> string \<Rightarrow> ArticleIndex
     \<Rightarrow> error + ArticleIndex object object \<times> prototype" where
  "register pr m k1 k2 v =
     (case getOrPrepare pr m k1 (\<lambda>_. []) of
        (Own inner, m') \<Rightarrow> Inr (AList.update k1 (setProp inner k2 v) m', pr)
      | (Builtin, m') \<Rightarrow>
          if k1 = ''__proto__''
          then (if k2 = ''__proto__'' then Inl TypeError
                else if k2 \<in> set objectPrototypeNames then Inl (Unfollowed k2)
                else Inr (m', AList.update k2 (indexObject v) pr))
          else (if k2 \<in> set functionPropertyNames then Inl (Unfollowed k2) else Inr (m', pr))
      | (Added x, m') \<Rightarrow>
          (case x of
             JObj ps \<Rightarrow>
               if k2 = ''__proto__'' then Inl (Unfollowed k2)
               else Inr (m', AList.update k1 (JObj (AList.update k2 (indexObject v) ps)) pr)
           | _ \<Rightarrow> Inl (Unfollowed k1)))"

section \<open>The article registry\<close>

text \<open>
  \<^verbatim>\<open>Array.prototype.sort\<close> with a comparator. A result of \<^verbatim>\<open>NaN\<close> counts as \<open>0\<close>.
  The sort is stable, which fixes its result whenever the comparator is consistent; it is
  modelled as the insertion sort that places each element before the first one it does not
  follow.
\<close>

definition sortCompare :: "('a \<Rightarrow> 'a \<Rightarrow> number) \<Rightarrow> 'a \<Rightarrow> 'a \<Rightarrow> int" where
  "sortCompare comparefn x y = (case comparefn x y of NaN \<Rightarrow> 0 | Finite v \<Rightarrow> v)"

fun insertSorted :: "('a \<Rightarrow> 'a \<Rightarrow> number) \<Rightarrow> 'a \<Rightarrow> 'a list \<Rightarrow> 'a list" where
  "insertSorted comparefn x [] = [x]"
| "insertSorted comparefn x (y # ys) =
     (if sortCompare comparefn x y \<le> 0 then x # y # ys
      else y # insertSorted comparefn x ys)"

definition arraySort :: "('a \<Rightarrow> 'a \<Rightarrow> number) \<Rightarrow> 'a list \<Rightarrow> 'a list" where
  "arraySort comparefn xs = foldr (insertSorted comparefn) xs []"

definition compareArticles :: "Env \<Rightarrow> ArticleIndex \<Rightarrow> ArticleIndex \<Rightarrow> number" where
  "compareArticles env a b =
     (if nullish (published_time a) \<and> nullish (published_time b)
        then negate (Finite (localeCompare env (path a) (path b)))
      else if nullish (published_time a) then Finite (- 1)
      else if nullish (published_time b) then Finite 1
      else negate (minus_number (dateParse env (published_time a))
                                (dateParse env (published_time b))))"

definition articlesDir :: string where
  "articlesDir = ''articles''"

definition articlePathOf :: "Env \<Rightarrow> string \<Rightarrow> string" where
  "articlePathOf env markdownPath =
     (let articlePath = replaceMd markdownPath [];
          prefix = articlesDir @ pathSep env
      in if take (length prefix) articlePath = prefix
         then drop (length prefix) articlePath else articlePath)"

text \<open>
  The loop of \<open>collectArticles\<close>. It runs before anything is registered, with
  \<^verbatim>\<open>Object.prototype\<close> as the platform provides it.
\<close>

fun collectEach ::
  "Env \<Rightarrow> World \<Rightarrow> Config \<Rightarrow> string list \<Rightarrow> ArticleMetadata object \<Rightarrow> effect list
     \<Rightarrow> (error + ArticleMetadata object) \<times> effect list" where
  "collectEach env w config [] result fx = (Inr result, fx)"
| "collectEach env w config (markdownPath # rest) result fx =
     (case collectArticle env w config [] markdownPath (articlePathOf env markdownPath) fx of
        (Inl e, fx') \<Rightarrow> (Inl e, fx')
      | (Inr articleMetadata, fx') \<Rightarrow>
          collectEach env w config rest
            (setProp result (path articleMetadata) articleMetadata) fx')"

definition collectArticles ::
  "Env \<Rightarrow> World \<Rightarrow> Config \<Rightarrow> effect list \<Rightarrow> (error + ArticleRegistry) \<times> effect list" where
  "collectArticles env w config fx =
     (if \<not> fsExists w articlesDir then (Inl ArticlesMissing, fx)
      else (case collectEach env w config
                   (globFiles w (pathJoin env [articlesDir, ''**'', ''*.md''])) [] fx of
              (Inl e, fx') \<Rightarrow> (Inl e, fx')
            | (Inr result, fx') \<Rightarrow>
                (Inr \<lparr>articles = result,
                      orderedArticles =
                        arraySort (compareArticles env)
                          (map makeArticleIndex (objectValues result))\<rparr>, fx')))"

section \<open>The tag registry\<close>

text \<open>
  The keys that \<^verbatim>\<open>for (const tag of article.tags)\<close> registers: the elements of an
  array, each used as a property key (a string is its own key), or the characters of a
  string; any other value is not iterable.
\<close>

definition propertyKey :: "Env \<Rightarrow> jsval \<Rightarrow> string" where
  "propertyKey env v = (case v of JStr s \<Rightarrow> s | _ \<Rightarrow> toPropertyKey env v)"

definition tagKeys :: "Env \<Rightarrow> jsval \<Rightarrow> error + string list" where
  "tagKeys env v =
     (case v of
        JArr vs \<Rightarrow> Inr (map (propertyKey env) vs)
      | JStr s \<Rightarrow> Inr (map (\<lambda>c. [c]) s)
      | _ \<Rightarrow> Inl TypeError)"

fun registerEach ::
  "ArticleMetadata \<Rightarrow> string list \<Rightarrow> ArticleIndex object object \<Rightarrow> prototype
     \<Rightarrow> error + ArticleIndex object object \<times> prototype" where
  "registerEach article [] m pr = Inr (m, pr)"
| "registerEach article (tag # rest) m pr =
     (case register pr m tag (path article) (makeArticleIndex article) of
        Inl e \<Rightarrow> Inl e
      | Inr (m', pr') \<Rightarrow> registerEach article rest m' pr')"

fun registerTags ::
  "Env \<Rightarrow> ArticleMetadata list \<Rightarrow> ArticleIndex object object \<Rightarrow> prototype
     \<Rightarrow> error + ArticleIndex object object \<times> prototype" where
  "registerTags env [] m pr = Inr (m, pr)"
| "registerTags env (article # rest) m pr =
     (if nullish (tags article) then registerTags env rest m pr
      else (case tagKeys env (tags article) of
              Inl e \<Rightarrow> Inl e
            | Inr ks \<Rightarrow>
                (case registerEach article ks m pr of
                   Inl e \<Rightarrow> Inl e
                 | Inr (m', pr') \<Rightarrow> registerTags env rest m' pr')))"

definition tagsDir :: string where
  "tagsDir = ''tags''"

fun collectTagPages ::
  "Env \<Rightarrow> World \<Rightarrow> Config \<Rightarrow> prototype \<Rightarrow> string list \<Rightarrow> TagMetadata object \<Rightarrow> effect list
     \<Rightarrow> (error + TagMetadata object) \<times> effect list" where
  "collectTagPages env w config pr [] tgs fx = (Inr tgs, fx)"
| "collectTagPages env w config pr (key # rest) tgs fx =
     (let markdownPath = pathJoin env [tagsDir, key @ ''.md'']
      in if fsExists w markdownPath
         then (case collectArticle env w config pr markdownPath (pathJoin env [tagsDir, key])
                      fx of
                 (Inl e, fx') \<Rightarrow> (Inl e, fx')
               | (Inr article, fx') \<Rightarrow>
                   collectTagPages env w config pr rest
                     (setProp tgs key
                        (TagMetadata key (coalesce (title article) (JStr key)) (Some article)))
                     fx')
         else collectTagPages env w config pr rest
                (setProp tgs key (TagMetadata key (JStr key) None)) fx)"

text \<open>
  \<open>collectTags\<close>, started with \<^verbatim>\<open>Object.prototype\<close> as the platform provides it. What
  the registration adds to it is there when the tag pages are collected.
\<close>

definition collectTags ::
  "Env \<Rightarrow> World \<Rightarrow> ArticleRegistry \<Rightarrow> Config \<Rightarrow> effect list
     \<Rightarrow> (error + TagRegistry) \<times> effect list" where
  "collectTags env w registry config fx =
     (case registerTags env (objectValues (articles registry)) [] [] of
        Inl e \<Rightarrow> (Inl e, fx)
      | Inr (tagToArticleIndicesMap, pr) \<Rightarrow>
          (case collectTagPages env w config pr (objectKeys tagToArticleIndicesMap) [] fx of
             (Inl e, fx') \<Rightarrow> (Inl e, fx')
           | (Inr tgs, fx') \<Rightarrow>
               (Inr \<lparr>registry_tags = tgs, tagToArticles = tagToArticleIndicesMap\<rparr>, fx')))"

section \<open>The run\<close>

text \<open>
  What the registration of \<open>collectTags\<close> has added to \<^verbatim>\<open>Object.prototype\<close> by the
  time \<open>collectTags\<close> returns.
\<close>

definition addedBy :: "Env \<Rightarrow> ArticleRegistry \<Rightarrow> prototype" where
  "addedBy env registry =
     (case registerTags env (objectValues (articles registry)) [] [] of
        Inr (m, pr) \<Rightarrow> pr
      | Inl e \<Rightarrow> [])"

text \<open>A dump of \<^verbatim>\<open>execute\<close>: both the directory and the write are awaited.\<close>

definition dumpJSON ::
  "Env \<Rightarrow> World \<Rightarrow> string \<Rightarrow> string \<Rightarrow> effect list \<Rightarrow> (error + unit) \<times> effect list" where
  "dumpJSON env w name content fx =
     (let dir = pathJoin env [''generated''];
          file = pathJoin env [''generated'', name]
      in if \<not> fsMkdirOk w dir then (Inl (MkdirError dir), fx)
         else if \<not> fsWriteOk w file then (Inl (WriteError file), fx @ [Mkdir dir])
         else (Inr (), fx @ [Mkdir dir, WriteFile file content]))"

text \<open>
  \<open>execute\<close>. The two flags it reads are optional in the configuration and false here
  when they are missing: a run that has added a property of one of these names to
  \<^verbatim>\<open>Object.prototype\<close> is not followed past \<open>collectTags\<close>.
\<close>

definition execute :: "Env \<Rightarrow> World \<Rightarrow> Config \<Rightarrow> effect list \<Rightarrow> (error + unit) \<times> effect list" where
  "execute env w config fx =
     (case collectArticles env w config fx of
        (Inl e, fx1) \<Rightarrow> (Inl e, fx1)
      | (Inr arts, fx1) \<Rightarrow>
          (case collectTags env w arts config fx1 of
             (Inl e, fx2) \<Rightarrow> (Inl e, fx2)
           | (Inr tgs, fx2) \<Rightarrow>
               (case find (\<lambda>k. map_of (addedBy env arts) k \<noteq> None)
                       [''dumpArticleMetadata'', ''dumpTagMetadata''] of
                  Some k \<Rightarrow> (Inl (Unfollowed k), fx2)
                | None \<Rightarrow>
                    (case (if dumpArticleMetadata config
                           then dumpJSON env w ''articles.json'' (stringifyArticles env arts)
                                  fx2
                           else (Inr (), fx2)) of
                       (Inl e, fx3) \<Rightarrow> (Inl e, fx3)
                     | (Inr _, fx3) \<Rightarrow>
                         (if dumpTagMetadata config
                          then dumpJSON env w ''tags.json'' (stringifyTags env tgs) fx3
                          else (Inr (), fx3))))))"

section \<open>Vocabulary of the specification\<close>

text \<open>The nodes of a tree in document order, and the first heading among them.\<close>

fun preorder :: "Node \<Rightarrow> Node list" and preorderIn :: "Node list \<Rightarrow> Node list" where
  "preorder (Node ty val url cs) =
     Node ty val url cs # (case cs of Some children \<Rightarrow> preorderIn children | None \<Rightarrow> [])"
| "preorderIn [] = []"
| "preorderIn (child # children) = preorder child @ preorderIn children"

definition isHeading :: "Node \<Rightarrow> bool" where
  "isHeading node = (node_type node = ''heading'')"

definition firstHeading :: "Node \<Rightarrow> Node option" where
  "firstHeading node = find isHeading (preorder node)"

text \<open>
  The same tree with the content of every code block and image removed: the \<^verbatim>\<open>value\<close>
  and \<^verbatim>\<open>url\<close> of each node of type \<^verbatim>\<open>code\<close> or \<^verbatim>\<open>image\<close>.
\<close>

definition hidden :: "string \<Rightarrow> jsval \<Rightarrow> jsval" where
  "hidden ty x = (if ty \<in> set [''code'', ''image''] then JUndefined else x)"

fun redact :: "Node \<Rightarrow> Node" and redactIn :: "Node list \<Rightarrow> Node list" where
  "redact (Node ty val url cs) =
     Node ty (hidden ty val) (hidden ty url)
       (case cs of Some children \<Rightarrow> Some (redactIn children) | None \<Rightarrow> None)"
| "redactIn [] = []"
| "redactIn (child # children) = redact child # redactIn children"

text \<open>A visitor that decides by the type of a node alone, as the one that prunes headings.\<close>

definition byTypeOnly :: "(Node \<Rightarrow> bool) option \<Rightarrow> bool" where
  "byTypeOnly visitor =
     (case visitor of
        None \<Rightarrow> True
      | Some v \<Rightarrow> (\<forall>a b. node_type a = node_type b \<longrightarrow> v a = v b))"

text \<open>
  The nodes that a traversal with a visitor reaches, in document order: a node the visitor
  rejects is not reached and neither is anything below it, and nothing below a text or
  inline-code literal is. What one reached node contributes: its literal value, the
  placeholder for a code block or an image without children, and nothing otherwise.
\<close>

fun reached :: "(Node \<Rightarrow> bool) option \<Rightarrow> Node \<Rightarrow> Node list"
  and reachedIn :: "(Node \<Rightarrow> bool) option \<Rightarrow> Node list \<Rightarrow> Node list" where
  "reached visitor (Node ty val url cs) =
     (if rejects visitor (Node ty val url cs) then []
      else Node ty val url cs #
        (case literalOf ty val of
           Some s \<Rightarrow> []
         | None \<Rightarrow> (case cs of Some children \<Rightarrow> reachedIn visitor children | None \<Rightarrow> [])))"
| "reachedIn visitor [] = []"
| "reachedIn visitor (child # children) = reached visitor child @ reachedIn visitor children"

definition emitted :: "Node \<Rightarrow> string list" where
  "emitted node =
     (case literalOf (node_type node) (node_value node) of
        Some s \<Rightarrow> [s]
      | None \<Rightarrow>
          if node_children node = None \<and> node_type node \<in> set [''code'', ''image'']
          then [''...''] else [])"

text \<open>
  The debug dumps of an article do not fail: each is switched off, or its directory can be
  created and, for the HTML dump, the tree can be rendered.
\<close>

definition dumpsSucceed :: "Env \<Rightarrow> World \<Rightarrow> Config \<Rightarrow> string \<Rightarrow> Node \<Rightarrow> bool" where
  "dumpsSucceed env w config articlePath markdownAST =
     ((if dumpArticleAST config
       then fsMkdirOk w
              (pathDirname env (pathJoin env [''generated'', ''ast'', articlePath @ ''.json'']))
       else True)
      \<and> (if dumpArticleHTML config
         then fsMkdirOk w
                (pathDirname env (pathJoin env [''generated'', ''html'', articlePath @ ''.html'']))
              \<and> (case renderHTML env markdownAST of Inr _ \<Rightarrow> True | Inl _ \<Rightarrow> False)
         else True))"

text \<open>
  White space as the specification describes it for descriptions: every run collapsed to one
  space, and none left at either end.
\<close>

fun collapseSpaces :: "string \<Rightarrow> string" where
  "collapseSpaces [] = []"
| "collapseSpaces [c] = (if isSpace c then '' '' else [c])"
| "collapseSpaces (c # d # cs) =
     (if isSpace c
      then (if isSpace d then collapseSpaces (d # cs) else CHR '' '' # collapseSpaces (d # cs))
      else c # collapseSpaces (d # cs))"

definition trimSpaces :: "string \<Rightarrow> string" where
  "trimSpaces s = rev (dropWhile isSpace (rev (dropWhile isSpace s)))"

definition normalizedSource :: "Node \<Rightarrow> string" where
  "normalizedSource node =
     trimSpaces (collapseSpaces (join '' '' (findTexts node (Some notHeading))))"

text \<open>
  The order of the specification on article indices: an undated article comes before every
  dated one, undated articles are in descending order of path, dated ones in descending
  order of parsed date.
\<close>

definition undated :: "ArticleIndex \<Rightarrow> bool" where
  "undated a = nullish (published_time a)"

definition notOlder :: "Env \<Rightarrow> ArticleIndex \<Rightarrow> ArticleIndex \<Rightarrow> bool" where
  "notOlder env a b =
     (case (dateParse env (published_time a), dateParse env (published_time b)) of
        (Finite x, Finite y) \<Rightarrow> y \<le> x
      | _ \<Rightarrow> False)"

definition listedBefore :: "Env \<Rightarrow> ArticleIndex \<Rightarrow> ArticleIndex \<Rightarrow> bool" where
  "listedBefore env a b =
     (if undated a then (if undated b then 0 \<le> localeCompare env (path a) (path b) else True)
      else (if undated b then False else notOlder env a b))"

text \<open>
  A comparison of strings is consistent on a set of paths when it is antisymmetric in sign
  and transitive there, as a collation is.
\<close>

definition consistentOn :: "string set \<Rightarrow> (string \<Rightarrow> string \<Rightarrow> int) \<Rightarrow> bool" where
  "consistentOn P cmp =
     ((\<forall>p\<in>P. \<forall>q\<in>P. (cmp p q \<le> 0) = (0 \<le> cmp q p))
      \<and> (\<forall>p\<in>P. \<forall>q\<in>P. \<forall>r\<in>P. cmp p q \<le> 0 \<longrightarrow> cmp q r \<le> 0 \<longrightarrow> cmp p r \<le> 0))"

text \<open>Every date among the indices parses.\<close>

definition datesParse :: "Env \<Rightarrow> ArticleIndex list \<Rightarrow> bool" where
  "datesParse env xs =
     list_all (\<lambda>a. undated a \<or> dateParse env (published_time a) \<noteq> NaN) xs"

text \<open>The tag keys of an article, when its tags can be iterated.\<close>

definition tagsOfArticle :: "Env \<Rightarrow> ArticleMetadata \<Rightarrow> string list" where
  "tagsOfArticle env article =
     (if nullish (tags article) then []
      else (case tagKeys env (tags article) of Inr ks \<Rightarrow> ks | Inl _ \<Rightarrow> []))"

text \<open>No collected article carries the tag \<^verbatim>\<open>__proto__\<close>.\<close>

definition prototypeUntouched :: "Env \<Rightarrow> ArticleRegistry \<Rightarrow> bool" where
  "prototypeUntouched env registry =
     list_all (\<lambda>article. ''__proto__'' \<notin> set (tagsOfArticle env article))
       (objectValues (articles registry))"

section \<open>A small site\<close>

text \<open>
  Concrete inputs for the examples: documents with the trees the markdown parser gives
  them, the frontmatter blocks with what the YAML loader returns for them, and a platform
  with POSIX paths. Whatever the tables do not list parses to an empty document or fails
  as a syntax error.
\<close>

definition textNode :: "string \<Rightarrow> Node" where
  "textNode s = Node ''text'' (JStr s) JUndefined None"

definition codeNode :: "string \<Rightarrow> Node" where
  "codeNode s = Node ''code'' (JStr s) JUndefined None"

definition imageNode :: "string \<Rightarrow> Node" where
  "imageNode u = Node ''image'' JUndefined (JStr u) None"

definition yamlNode :: "string \<Rightarrow> Node" where
  "yamlNode s = Node ''yaml'' (JStr s) JUndefined None"

definition headingNode :: "Node list \<Rightarrow> Node" where
  "headingNode cs = Node ''heading'' JUndefined JUndefined (Some cs)"

definition paragraphNode :: "Node list \<Rightarrow> Node" where
  "paragraphNode cs = Node ''paragraph'' JUndefined JUndefined (Some cs)"

definition emphasisNode :: "Node list \<Rightarrow> Node" where
  "emphasisNode cs = Node ''emphasis'' JUndefined JUndefined (Some cs)"

definition strongNode :: "Node list \<Rightarrow> Node" where
  "strongNode cs = Node ''strong'' JUndefined JUndefined (Some cs)"

definition rootNode :: "Node list \<Rightarrow> Node" where
  "rootNode cs = Node ''root'' JUndefined JUndefined (Some cs)"

definition unlines :: "string list \<Rightarrow> string" where
  "unlines ls = join [CHR 0x0A] ls"

definition fenced :: "string \<Rightarrow> string \<Rightarrow> string" where
  "fenced yaml body = unlines [''---'', yaml, ''---'', body]"

definition siteDocuments :: "(string \<times> Node) list" where
  "siteDocuments =
     [(''# A'', rootNode [headingNode [textNode ''A'']]),
      (fenced ''date: !!str 2020-01-01'' ''# B'',
         rootNode [yamlNode ''date: !!str 2020-01-01'', headingNode [textNode ''B'']]),
      (fenced ''date: !!str 2021-01-01'' ''# C'',
         rootNode [yamlNode ''date: !!str 2021-01-01'', headingNode [textNode ''C'']]),
      (fenced ''date: tomorrow'' ''# B'',
         rootNode [yamlNode ''date: tomorrow'', headingNode [textNode ''B'']]),
      (fenced ''x-kleinboy: {title: C}'' ''# D'',
         rootNode [yamlNode ''x-kleinboy: {title: C}'', headingNode [textNode ''D'']]),
      (fenced ''tags: [go]'' ''# P1'',
         rootNode [yamlNode ''tags: [go]'', headingNode [textNode ''P1'']]),
      (fenced ''tags: [constructor]'' ''# P1'',
         rootNode [yamlNode ''tags: [constructor]'', headingNode [textNode ''P1'']]),
      (fenced ''tags: [go'' ''# P1'',
         rootNode [yamlNode ''tags: [go'', headingNode [textNode ''P1'']]),
      (fenced ''tags: [__proto__, go]'' ''# Notes'',
         rootNode [yamlNode ''tags: [__proto__, go]'', headingNode [textNode ''Notes'']]),
      (''# Go Lang'', rootNode [headingNode [textNode ''Go Lang'']]),
      (''See ![cat](cat.png)'', rootNode [paragraphNode [textNode ''See '', imageNode ''cat.png'']]),
      (''All about Go.'', rootNode [paragraphNode [textNode ''All about Go.'']])]"

definition siteYaml :: "(string \<times> FrontMatter) list" where
  "siteYaml =
     [(''date: !!str 2020-01-01'', [''date'' \<mapsto> JStr ''2020-01-01'']),
      (''date: !!str 2021-01-01'', [''date'' \<mapsto> JStr ''2021-01-01'']),
      (''date: tomorrow'', [''date'' \<mapsto> JStr ''tomorrow'']),
      (''x-kleinboy: {title: C}'', [''x-kleinboy'' \<mapsto> JObj [(''title'', JStr ''C'')]]),
      (''tags: [go]'', [''tags'' \<mapsto> JArr [JStr ''go'']]),
      (''tags: [constructor]'', [''tags'' \<mapsto> JArr [JStr ''constructor'']]),
      (''tags: [__proto__, go]'', [''tags'' \<mapsto> JArr [JStr ''__proto__'', JStr ''go'']])]"

definition siteDates :: "(string \<times> int) list" where
  "siteDates = [(''2020-01-01'', 1577836800000), (''2021-01-01'', 1609459200000)]"

definition siteParse :: "string \<Rightarrow> Node" where
  "siteParse s = (case map_of siteDocuments s of Some n \<Rightarrow> n | None \<Rightarrow> rootNode [])"

definition siteYamlLoad :: parser where
  "siteYamlLoad v =
     (case v of
        JStr s \<Rightarrow> (case map_of siteYaml s of
                     Some fm \<Rightarrow> Inr (Some fm)
                   | None \<Rightarrow> Inl ''bad indentation or unexpected end of the stream'')
      | _ \<Rightarrow> Inl ''not a string'')"

definition siteDateParse :: "jsval \<Rightarrow> number" where
  "siteDateParse v =
     (case v of
        JStr s \<Rightarrow> (case map_of siteDates s of Some t \<Rightarrow> Finite t | None \<Rightarrow> NaN)
      | _ \<Rightarrow> NaN)"

text \<open>Comparison of strings by code units, which is how a collation orders ASCII letters.\<close>

fun compareUnits :: "string \<Rightarrow> string \<Rightarrow> int" where
  "compareUnits [] [] = 0"
| "compareUnits [] (y # ys) = - 1"
| "compareUnits (x # xs) [] = 1"
| "compareUnits (x # xs) (y # ys) =
     (if (of_char x :: nat) < of_char y then - 1
      else if (of_char y :: nat) < of_char x then 1
      else compareUnits xs ys)"

definition posixDirname :: "string \<Rightarrow> string" where
  "posixDirname p = rev (drop 1 (dropWhile (\<lambda>c. c \<noteq> CHR ''/'') (rev p)))"

definition siteEnv :: Env where
  "siteEnv =
     \<lparr>parse = siteParse,
      tomlParse = (\<lambda>_. Inl ''unexpected character''),
      yamlSafeLoad = siteYamlLoad,
      jsonParse = (\<lambda>_. Inl ''unexpected token''),
      dateParse = siteDateParse,
      localeCompare = compareUnits,
      toPropertyKey = (\<lambda>_. ''[object Object]''),
      pathJoin = join ''/'',
      pathDirname = posixDirname,
      pathSep = ''/'',
      stringifyAST = (\<lambda>_. ''{}''),
      stringifyArticles = (\<lambda>_. ''{}''),
      stringifyTags = (\<lambda>_. ''{}''),
      renderHTML = (\<lambda>_. Inr [])\<rparr>"

definition siteConfig :: Config where
  "siteConfig =
     \<lparr>untitled = None, dumpArticleMetadata = True, dumpArticleAST = False,
      dumpArticleHTML = False, dumpTagMetadata = True\<rparr>"

text \<open>A file system holding the listed files, with \<^verbatim>\<open>articles\<close> as its only directory.\<close>

definition siteWith :: "(string \<times> string) list \<Rightarrow> World" where
  "siteWith files =
     \<lparr>fsExists = (\<lambda>p. p = ''articles'' \<or> p \<in> set (map fst files)),
      fsReadFile = map_of files,
      globFiles = (\<lambda>pattern.
        if pattern = ''articles/**/*.md''
        then filter (\<lambda>p. take 9 p = ''articles/'' \<and> drop (length p - 3) p = ''.md'')
               (map fst files)
        else []),
      fsMkdirOk = (\<lambda>_. True),
      fsWriteOk = (\<lambda>_. True)\<rparr>"

definition datedSite :: World where
  "datedSite =
     siteWith
       [(''articles/a.md'', ''# A''),
        (''articles/b.md'', fenced ''date: !!str 2020-01-01'' ''# B''),
        (''articles/c.md'', fenced ''date: !!str 2021-01-01'' ''# C'')]"

definition misdatedSite :: World where
  "misdatedSite =
     siteWith
       [(''articles/a.md'', fenced ''date: !!str 2020-01-01'' ''# B''),
        (''articles/b.md'', fenced ''date: tomorrow'' ''# B''),
        (''articles/c.md'', fenced ''date: !!str 2021-01-01'' ''# C'')]"

definition titledSite :: World where
  "titledSite = siteWith [(''articles/c.md'', fenced ''x-kleinboy: {title: C}'' ''# D'')]"

definition pictureSite :: World where
  "pictureSite = siteWith [(''articles/pic.md'', ''See ![cat](cat.png)'')]"

definition taggedSite :: World where
  "taggedSite =
     siteWith
       [(''articles/p1.md'', fenced ''tags: [go]'' ''# P1''),
        (''tags/go.md'', ''# Go Lang'')]"

definition untitledTagSite :: World where
  "untitledTagSite =
     siteWith
       [(''articles/p1.md'', fenced ''tags: [go]'' ''# P1''),
        (''tags/go.md'', ''All about Go.'')]"

definition pollutedSite :: World where
  "pollutedSite =
     siteWith
       [(''articles/untitled.md'', fenced ''tags: [__proto__, go]'' ''# Notes''),
        (''tags/go.md'', ''All about Go.'')]"

definition constructorSite :: World where
  "constructorSite =
     siteWith [(''articles/p1.md'', fenced ''tags: [constructor]'' ''# P1'')]"

definition brokenSite :: World where
  "brokenSite = siteWith [(''articles/p1.md'', fenced ''tags: [go'' ''# P1'')]"

definition emptyDisk :: World where
  "emptyDisk =
     \<lparr>fsExists = (\<lambda>_. False), fsReadFile = (\<lambda>_. None), globFiles = (\<lambda>_. []),
      fsMkdirOk = (\<lambda>_. True), fsWriteOk = (\<lambda>_. True)\<rparr>"

text \<open>The registry a run collects, empty when the run fails.\<close>

definition registryOf :: "Env \<Rightarrow> World \<Rightarrow> Config \<Rightarrow> ArticleRegistry" where
  "registryOf env w config =
     (case fst (collectArticles env w config []) of
        Inr registry \<Rightarrow> registry
      | Inl _ \<Rightarrow> \<lparr>articles = [], orderedArticles = []\<rparr>)"

definition tagRegistryOf :: "Env \<Rightarrow> World \<Rightarrow> Config \<Rightarrow> TagRegistry" where
  "tagRegistryOf env w config =
     (case fst (collectTags env w (registryOf env w config) config []) of
        Inr registry \<Rightarrow> registry
      | Inl _ \<Rightarrow> \<lparr>registry_tags = [], tagToArticles = []\<rparr>)"


section \<open>Text extraction: proofs\<close>

lemmas node_defs = textNode_def codeNode_def imageNode_def yamlNode_def headingNode_def
  paragraphNode_def emphasisNode_def strongNode_def rootNode_def

lemma rejects_by_type:
  assumes "byTypeOnly visitor" and "node_type a = node_type b"
  shows "rejects visitor a = rejects visitor b"
proof (cases visitor)
  case None
  then show ?thesis by (simp add: rejects_def)
next
  case (Some v)
  from assms(1) have "\<forall>x y. node_type x = node_type y \<longrightarrow> v x = v y"
    unfolding byTypeOnly_def Some option.case .
  then have eq: "v a = v b" using assms(2) by blast
  show ?thesis unfolding rejects_def Some option.case by (simp only: eq)
qed

lemma literalOf_hidden: "literalOf ty (hidden ty val) = literalOf ty val"
  by (simp add: literalOf_def hidden_def)

lemma findTexts_redact_both:
  "byTypeOnly visitor \<Longrightarrow> findTexts (redact n) visitor = findTexts n visitor"
  "byTypeOnly visitor \<Longrightarrow> findTextsIn (redactIn ns) visitor = findTextsIn ns visitor"
proof (induction n visitor and ns visitor rule: findTexts_findTextsIn.induct)
  case (1 ty val url cs visitor)
  have acc: "rejects visitor (Node ty (hidden ty val) (hidden ty url) x) = rejects visitor (Node ty val url cs)" for x
    using 1(2) by (intro rejects_by_type) simp_all
  show ?case
  proof (cases cs)
    case None
    then show ?thesis using acc by (simp add: literalOf_hidden)
  next
    case (Some children)
    then show ?thesis using acc 1 by (simp add: literalOf_hidden split: option.splits)
  qed
next
  case (2 visitor)
  then show ?case by simp
next
  case (3 child children visitor)
  then show ?case by simp
qed

lemma byTypeOnly_notHeading: "byTypeOnly (Some notHeading)"
  by (simp add: byTypeOnly_def notHeading_def)

lemma findTextsIn_concat:
  "findTextsIn children visitor = concat (map (\<lambda>child. findTexts child visitor) children)"
  by (induction children) simp_all

lemma emitted_Node:
  "emitted (Node ty val url cs)
     = (case literalOf ty val of
          Some s \<Rightarrow> [s]
        | None \<Rightarrow> if cs = None \<and> ty \<in> set [''code'', ''image''] then [''...''] else [])"
  by (auto simp: emitted_def split: option.splits)

lemma findTexts_reached_both:
  "findTexts n visitor = concat (map emitted (reached visitor n))"
  "findTextsIn ns visitor = concat (map emitted (reachedIn visitor ns))"
proof (induction n visitor and ns visitor rule: findTexts_findTextsIn.induct)
  case (1 ty val url cs visitor)
  show ?case
  proof (cases "rejects visitor (Node ty val url cs)")
    case True
    then show ?thesis by simp
  next
    case False
    show ?thesis
    proof (cases "literalOf ty val")
      case (Some s)
      with False show ?thesis by (simp add: emitted_Node)
    next
      case None
      show ?thesis
      proof (cases cs)
        case noChildren: None
        with False None show ?thesis by (simp add: emitted_Node)
      next
        case (Some children)
        with False None 1 show ?thesis by (simp add: emitted_Node)
      qed
    qed
  qed
next
  case (2 visitor)
  show ?case by simp
next
  case (3 child children visitor)
  then show ?case by simp
qed

text \<open>
  Claim C6. \<open>findTexts\<close> emits nothing for a node its visitor rejects, whatever lies below
  it; exactly the placeholder \<^verbatim>\<open>...\<close> for a code block or an image, which are leaves of
  the tree; the literal value of a text or inline-code node; nothing for any other node
  without children; and for a node with children the results for its children, in order and
  with the same visitor. So the result lists, in document order, the contributions of the
  nodes the traversal reaches, where nothing below a rejected node is reached. It does not
  depend on the content of the code blocks and images anywhere in the tree: removing every
  such \<^verbatim>\<open>value\<close> and \<^verbatim>\<open>url\<close> leaves it unchanged.
\<close>

theorem findTexts_never_leaks:
  "(rejects visitor pruned \<longrightarrow> findTexts pruned visitor = [])
   \<and> (ty1 \<in> set [''code'', ''image''] \<longrightarrow> \<not> rejects visitor (Node ty1 val1 url1 None)
        \<longrightarrow> findTexts (Node ty1 val1 url1 None) visitor = [''...''])
   \<and> (ty2 \<in> set [''text'', ''inlineCode''] \<longrightarrow> \<not> rejects visitor (Node ty2 (JStr s) url2 cs2)
        \<longrightarrow> findTexts (Node ty2 (JStr s) url2 cs2) visitor = [s])
   \<and> (literalOf ty3 val3 = None \<longrightarrow> ty3 \<notin> set [''code'', ''image'']
        \<longrightarrow> findTexts (Node ty3 val3 url3 None) visitor = [])
   \<and> (literalOf ty4 val4 = None \<longrightarrow> \<not> rejects visitor (Node ty4 val4 url4 (Some children))
        \<longrightarrow> findTexts (Node ty4 val4 url4 (Some children)) visitor
            = concat (map (\<lambda>child. findTexts child visitor) children))
   \<and> findTexts node visitor = concat (map emitted (reached visitor node))
   \<and> (byTypeOnly visitor \<longrightarrow> findTexts (redact node) visitor = findTexts node visitor)"
proof (intro conjI impI)
  assume "rejects visitor pruned"
  then show "findTexts pruned visitor = []" by (cases pruned) simp
next
  assume "ty1 \<in> set [''code'', ''image'']" "\<not> rejects visitor (Node ty1 val1 url1 None)"
  then show "findTexts (Node ty1 val1 url1 None) visitor = [''...'']"
    by (auto simp: literalOf_def)
next
  assume "ty2 \<in> set [''text'', ''inlineCode'']" "\<not> rejects visitor (Node ty2 (JStr s) url2 cs2)"
  then show "findTexts (Node ty2 (JStr s) url2 cs2) visitor = [s]"
    by (auto simp: literalOf_def)
next
  assume "literalOf ty3 val3 = None" "ty3 \<notin> set [''code'', ''image'']"
  then show "findTexts (Node ty3 val3 url3 None) visitor = []"
    by simp
next
  assume "literalOf ty4 val4 = None" "\<not> rejects visitor (Node ty4 val4 url4 (Some children))"
  then show "findTexts (Node ty4 val4 url4 (Some children)) visitor
      = concat (map (\<lambda>child. findTexts child visitor) children)"
    by (simp add: findTextsIn_concat)
next
  show "findTexts node visitor = concat (map emitted (reached visitor node))"
    by (rule findTexts_reached_both(1))
next
  assume "byTypeOnly visitor"
  then show "findTexts (redact node) visitor = findTexts node visitor"
    by (rule findTexts_redact_both(1))
qed

theorem findTexts_never_leaks_witness:
  "findTexts (headingNode [textNode ''Title'']) (Some notHeading) = []
   \<and> findTexts (codeNode ''rm -rf /'') (Some notHeading) = [''...'']
   \<and> findTexts (textNode ''plain'') (Some notHeading) = [''plain'']
   \<and> findTexts (Node ''html'' (JStr ''<hr>'') JUndefined None) (Some notHeading) = []
   \<and> findTexts (rootNode [headingNode [textNode ''Secret title''],
                          paragraphNode [textNode ''body'', codeNode ''rm -rf /'']])
        (Some notHeading)
     = [''body'', ''...'']
   \<and> map node_type
        (reached (Some notHeading)
           (rootNode [headingNode [textNode ''Secret title''],
                      paragraphNode [textNode ''body'', codeNode ''rm -rf /'']]))
     = [''root'', ''paragraph'', ''text'', ''code'']
   \<and> findTexts (redact (rootNode [paragraphNode [textNode ''see'', imageNode ''cat.png''],
                                   codeNode ''rm -rf /''])) (Some notHeading)
     = findTexts (rootNode [paragraphNode [textNode ''see'', imageNode ''cat.png''],
                            codeNode ''rm -rf /'']) (Some notHeading)
   \<and> findTexts (rootNode [paragraphNode [textNode ''see'', imageNode ''cat.png''],
                          codeNode ''rm -rf /'']) (Some notHeading) = [''see'', ''...'', ''...'']"
  using findTexts_never_leaks [where visitor = "Some notHeading"
      and pruned = "headingNode [textNode ''Title'']"
      and ?ty1.0 = "''code''" and ?val1.0 = "JStr ''rm -rf /''" and ?url1.0 = JUndefined
      and ?ty2.0 = "''text''" and s = "''plain''" and ?url2.0 = JUndefined and ?cs2.0 = None
      and ?ty3.0 = "''html''" and ?val3.0 = "JStr ''<hr>''" and ?url3.0 = JUndefined
      and ?ty4.0 = "''root''" and ?val4.0 = JUndefined and ?url4.0 = JUndefined
      and children = "[headingNode [textNode ''Secret title''],
                       paragraphNode [textNode ''body'', codeNode ''rm -rf /'']]"
      and node = "rootNode [paragraphNode [textNode ''see'', imageNode ''cat.png''],
                            codeNode ''rm -rf /'']"]
    byTypeOnly_notHeading
  by (simp add: node_defs rejects_def notHeading_def literalOf_def)

text \<open>
  Claim C4, amended. When the ellipsis is no longer than \<open>maxLength\<close>, the description is
  at most \<open>maxLength\<close> long; a source longer than \<open>maxLength\<close> is cut to
  \<open>maxLength - length ellipsis\<close> characters and the ellipsis appended, any other source is
  returned as it is.
\<close>

theorem extractDescription_bounded:
  assumes "int (length (ellipsisOf options)) \<le> maxLengthOf options"
  shows "int (length (extractDescription node options)) \<le> maxLengthOf options
    \<and> (if maxLengthOf options < int (length (descriptionSource node))
       then extractDescription node options
            = take (nat (maxLengthOf options - int (length (ellipsisOf options))))
                (descriptionSource node) @ ellipsisOf options
       else extractDescription node options = descriptionSource node)"
  using assms by (auto simp: extractDescription_def Let_def slice0_def)

theorem extractDescription_bounded_witness:
  "extractDescription (rootNode [paragraphNode [textNode ''abcdefgh'']])
     (Some \<lparr>maxLength = Some 5, ellipsis = Some ''..''\<rparr>) = ''abc..''"
  using extractDescription_bounded [of "Some \<lparr>maxLength = Some 5, ellipsis = Some ''..''\<rparr>"
      "rootNode [paragraphNode [textNode ''abcdefgh'']]"]
  by (simp add: maxLengthOf_def ellipsisOf_def descriptionSource_def node_defs rejects_def
      notHeading_def literalOf_def replaceEdgeSpace_def replaceSpaceRun_def isSpace_def)

text \<open>
  Without that condition the bound fails: with \<open>maxLength = 2\<close> and the ellipsis
  \<^verbatim>\<open>...\<close> the end of the slice is \<open>-1\<close>, which counts from the end of the source.
\<close>

theorem extractDescription_overlong_counterexample:
  "extractDescription (rootNode [paragraphNode [textNode ''abcdefgh'']])
     (Some \<lparr>maxLength = Some 2, ellipsis = Some ''...''\<rparr>) = ''abcdefg...''
   \<and> \<not> int (length (extractDescription (rootNode [paragraphNode [textNode ''abcdefgh'']])
           (Some \<lparr>maxLength = Some 2, ellipsis = Some ''...''\<rparr>)))
       \<le> maxLengthOf (Some \<lparr>maxLength = Some 2, ellipsis = Some ''...''\<rparr>)"
  by (simp add: extractDescription_def maxLengthOf_def ellipsisOf_def descriptionSource_def
      node_defs rejects_def slice0_def
      notHeading_def literalOf_def replaceEdgeSpace_def replaceSpaceRun_def isSpace_def)

text \<open>
  Claim C5. The two replacements have no \<^verbatim>\<open>g\<close> flag. For the paragraph
  \<^verbatim>\<open>one *two* three **four**\<close> the joined text has three runs of two spaces, and only
  the first is collapsed, where the specification asks for every run. For a paragraph of
  two lines whose first line has a space, the line break stays in the description.
\<close>

theorem descriptionSource_collapses_first_run_only:
  "descriptionSource
     (rootNode [paragraphNode [textNode ''one '', emphasisNode [textNode ''two''],
                               textNode '' three '', strongNode [textNode ''four'']]])
     = ''one two  three  four''
   \<and> normalizedSource
     (rootNode [paragraphNode [textNode ''one '', emphasisNode [textNode ''two''],
                               textNode '' three '', strongNode [textNode ''four'']]])
     = ''one two three four''
   \<and> descriptionSource (rootNode [paragraphNode [textNode (unlines [''first line'', ''second''])]])
     = unlines [''first line'', ''second'']
   \<and> normalizedSource (rootNode [paragraphNode [textNode (unlines [''first line'', ''second''])]])
     = ''first line second''"
  by (simp add: descriptionSource_def normalizedSource_def trimSpaces_def unlines_def
      node_defs rejects_def
      notHeading_def literalOf_def replaceEdgeSpace_def replaceSpaceRun_def isSpace_def)

text \<open>
  Claim C2. The merged frontmatter holds, for every key, the value of the sidecar when the
  sidecar has the key and the value of the inline frontmatter otherwise; with only one of
  the two it is that one, and with neither it is the empty record.
\<close>

theorem mergeFrontmatter_sidecar_wins:
  "mergeFrontmatter (Some inline) (Some sidecar) k
     = (case sidecar k of Some v \<Rightarrow> Some v | None \<Rightarrow> inline k)
   \<and> mergeFrontmatter (Some inline) None = inline
   \<and> mergeFrontmatter None (Some sidecar) = sidecar
   \<and> mergeFrontmatter None None = Map.empty"
  by (auto simp: mergeFrontmatter_def spread_def map_add_def split: option.splits)

theorem mergeFrontmatter_sidecar_wins_witness:
  "mergeFrontmatter (Some [''title'' \<mapsto> JStr ''A'', ''layout'' \<mapsto> JStr ''post''])
       (Some [''title'' \<mapsto> JStr ''B'']) ''title'' = Some (JStr ''B'')
   \<and> mergeFrontmatter (Some [''title'' \<mapsto> JStr ''A'', ''layout'' \<mapsto> JStr ''post''])
       (Some [''title'' \<mapsto> JStr ''B'']) ''layout'' = Some (JStr ''post'')"
  using mergeFrontmatter_sidecar_wins [of "[''title'' \<mapsto> JStr ''A'', ''layout'' \<mapsto> JStr ''post'']"
      "[''title'' \<mapsto> JStr ''B'']" "''title''"]
    mergeFrontmatter_sidecar_wins [of "[''title'' \<mapsto> JStr ''A'', ''layout'' \<mapsto> JStr ''post'']"
      "[''title'' \<mapsto> JStr ''B'']" "''layout''"]
  by simp


section \<open>Articles: proofs\<close>

lemma find_append_option:
  "find P (xs @ ys) = (case find P xs of Some x \<Rightarrow> Some x | None \<Rightarrow> find P ys)"
  by (induction xs) simp_all

lemma isHeading_Node: "isHeading (Node ty val url cs) = (ty = ''heading'')"
  by (simp add: isHeading_def)

lemma extractTitle_first_heading:
  "extractTitle n = map_option (\<lambda>h. join '' '' (findTexts h None)) (firstHeading n)"
  "extractTitleIn ns = map_option (\<lambda>h. join '' '' (findTexts h None)) (find isHeading (preorderIn ns))"
proof (induction n and ns rule: extractTitle_extractTitleIn.induct)
  case (1 ty val url cs)
  show ?case
  proof (cases "ty = ''heading''")
    case True
    then show ?thesis by (simp add: firstHeading_def isHeading_Node)
  next
    case False
    then show ?thesis using 1
      by (cases cs) (simp_all add: firstHeading_def isHeading_Node)
  qed
next
  case 2
  show ?case by simp
next
  case (3 child children)
  then show ?case
    by (cases "firstHeading child") (simp_all add: find_append_option firstHeading_def)
qed

lemma collectArticle_Inr:
  assumes "collectArticle env w config pr markdownPath articlePath fx = (Inr meta, fx')"
  shows "\<exists>markdownString inline sidecar.
    fsReadFile w markdownPath = Some markdownString
    \<and> extractFrontmatter env (parse env markdownString) = Inr inline
    \<and> findMetadataFrontmatter env w markdownPath = Inr sidecar
    \<and> meta = articleMetadataOf pr config markdownPath articlePath
               (mergeFrontmatter inline sidecar) (parse env markdownString)"
  using assms unfolding collectArticle_def Let_def
  by (auto split: option.splits sum.splits prod.splits if_splits)

lemma collectArticle_meta:
  assumes "collectArticle env w config pr markdownPath articlePath fx = (Inr meta, fx')"
    and "fsReadFile w markdownPath = Some markdownString"
    and "extractFrontmatter env (parse env markdownString) = Inr inline"
    and "findMetadataFrontmatter env w markdownPath = Inr sidecar"
  shows "meta = articleMetadataOf pr config markdownPath articlePath
               (mergeFrontmatter inline sidecar) (parse env markdownString)"
  using collectArticle_Inr[OF assms(1)] assms(2-4) by auto

lemma path_articleMetadataOf:
  "path (articleMetadataOf pr config markdownPath articlePath fm ast) = articlePath"
  by (simp add: articleMetadataOf_def)

lemma collectArticle_succeeds:
  assumes "fsReadFile w markdownPath = Some markdownString"
    and "extractFrontmatter env (parse env markdownString) = Inr inline"
    and "findMetadataFrontmatter env w markdownPath = Inr sidecar"
    and "dumpsSucceed env w config articlePath (parse env markdownString)"
    and "find (\<lambda>k. map_of pr k \<noteq> None) inheritableReads = None"
  shows "fst (collectArticle env w config pr markdownPath articlePath fx)
     = Inr (articleMetadataOf pr config markdownPath articlePath
              (mergeFrontmatter inline sidecar) (parse env markdownString))"
  using assms
  unfolding collectArticle_def dumpAST_def dumpHTML_def dumpsSucceed_def Let_def
  by (auto simp: path_articleMetadataOf split: sum.splits if_splits)

lemma untitledOf_start:
  "untitledOf [] config = JStr (case untitled config of Some u \<Rightarrow> u | None \<Rightarrow> ''(Untitled)'')"
  by (simp add: untitledOf_def inherited_def coalesce_def nullish_def split: option.splits)

lemma title_articleMetadataOf:
  "title (articleMetadataOf [] config markdownPath articlePath fm ast) =
     (if \<not> nullish (kleinboyField [] fm ''title'') then kleinboyField [] fm ''title''
      else (case firstHeading ast of
              Some h \<Rightarrow> JStr (join '' '' (findTexts h None))
            | None \<Rightarrow> JStr (case untitled config of Some u \<Rightarrow> u | None \<Rightarrow> ''(Untitled)'')))"
  by (simp add: articleMetadataOf_def coalesce_def extractTitle_first_heading(1) ofTitle_def
      untitledOf_start nullish_def split: option.splits)

text \<open>
  Claim C3. With \<^verbatim>\<open>Object.prototype\<close> as the platform provides it, \<open>collectArticle\<close>
  returns the metadata of every source file that can be read and whose inline and sidecar
  frontmatter parse, when the debug dumps are off or succeed. The title of that metadata is
  the \<^verbatim>\<open>title\<close> of the \<^verbatim>\<open>x-kleinboy\<close> namespace of the merged frontmatter when that
  is present (neither missing nor \<^verbatim>\<open>null\<close>); otherwise the space-joined text of the first
  heading of the tree in document order; otherwise the configured default,
  \<^verbatim>\<open>(Untitled)\<close> when none is configured.
\<close>

theorem collectArticle_title:
  assumes "fsReadFile w markdownPath = Some markdownString"
    and "extractFrontmatter env (parse env markdownString) = Inr inline"
    and "findMetadataFrontmatter env w markdownPath = Inr sidecar"
    and "dumpsSucceed env w config articlePath (parse env markdownString)"
  shows "fst (collectArticle env w config [] markdownPath articlePath fx)
       = Inr (articleMetadataOf [] config markdownPath articlePath
                (mergeFrontmatter inline sidecar) (parse env markdownString))
    \<and> title (articleMetadataOf [] config markdownPath articlePath
               (mergeFrontmatter inline sidecar) (parse env markdownString))
       = (if \<not> nullish (kleinboyField [] (mergeFrontmatter inline sidecar) ''title'')
          then kleinboyField [] (mergeFrontmatter inline sidecar) ''title''
          else (case firstHeading (parse env markdownString) of
                  Some h \<Rightarrow> JStr (join '' '' (findTexts h None))
                | None \<Rightarrow>
                    JStr (case untitled config of Some u \<Rightarrow> u | None \<Rightarrow> ''(Untitled)'')))"
proof
  show "fst (collectArticle env w config [] markdownPath articlePath fx)
       = Inr (articleMetadataOf [] config markdownPath articlePath
                (mergeFrontmatter inline sidecar) (parse env markdownString))"
    by (rule collectArticle_succeeds[OF assms]) (simp add: inheritableReads_def)
qed (rule title_articleMetadataOf)

lemmas site_defs = siteEnv_def siteParse_def siteYamlLoad_def siteDateParse_def
  siteDocuments_def siteYaml_def siteDates_def siteWith_def siteConfig_def fenced_def
  unlines_def posixDirname_def

lemma titled_read:
  "fsReadFile titledSite ''articles/c.md'' = Some (fenced ''x-kleinboy: {title: C}'' ''# D'')"
  by (simp add: titledSite_def siteWith_def)

lemma titled_tree:
  "parse siteEnv (fenced ''x-kleinboy: {title: C}'' ''# D'')
     = rootNode [yamlNode ''x-kleinboy: {title: C}'', headingNode [textNode ''D'']]"
  by (simp add: site_defs)

lemma titled_inline:
  "extractFrontmatter siteEnv (rootNode [yamlNode ''x-kleinboy: {title: C}'', headingNode [textNode ''D'']])
     = Inr (Some [''x-kleinboy'' \<mapsto> JObj [(''title'', JStr ''C'')]])"
  by (simp add: site_defs node_defs parsed_def)

lemma titled_sidecar: "findMetadataFrontmatter siteEnv titledSite ''articles/c.md'' = Inr None"
  by (simp add: findMetadataFrontmatter_def titledSite_def siteWith_def replaceMd_def)

lemma titled_dumps:
  "dumpsSucceed siteEnv titledSite siteConfig ''c''
     (parse siteEnv (fenced ''x-kleinboy: {title: C}'' ''# D''))"
  by (simp add: dumpsSucceed_def siteConfig_def)

theorem collectArticle_title_witness:
  "(case fst (collectArticle siteEnv titledSite siteConfig [] ''articles/c.md'' ''c'' []) of
      Inr meta \<Rightarrow> title meta
    | Inl e \<Rightarrow> JUndefined) = JStr ''C''
   \<and> extractTitle (rootNode [yamlNode ''x-kleinboy: {title: C}'', headingNode [textNode ''D'']])
     = Some ''D''"
  using collectArticle_title [OF titled_read titled_inline [folded titled_tree] titled_sidecar
      titled_dumps, where fx = "[]"]
  by (simp add: titled_tree kleinboyField_def mergeFrontmatter_def spread_def getProp_def
      nullish_def optField_def node_defs literalOf_def rejects_def)

text \<open>
  Claim C9. With \<^verbatim>\<open>Object.prototype\<close> as the platform provides it, \<open>collectArticle\<close>
  returns the metadata of every source file that can be read and whose frontmatter parses,
  when the debug dumps are off or succeed. The description and the images of that metadata
  are always defined: when the \<^verbatim>\<open>x-kleinboy\<close> namespace gives none they are the
  extracted description and the list of the extracted images, either of which may be empty.
  The tags are the \<^verbatim>\<open>tags\<close> of the merged frontmatter as they are, and are missing
  exactly when it has no such key.
\<close>

theorem collectArticle_defaults:
  assumes "fsReadFile w markdownPath = Some markdownString"
    and "extractFrontmatter env (parse env markdownString) = Inr inline"
    and "findMetadataFrontmatter env w markdownPath = Inr sidecar"
    and "dumpsSucceed env w config articlePath (parse env markdownString)"
    and "meta = articleMetadataOf [] config markdownPath articlePath
                  (mergeFrontmatter inline sidecar) (parse env markdownString)"
  shows "fst (collectArticle env w config [] markdownPath articlePath fx) = Inr meta
    \<and> \<not> nullish (description meta) \<and> \<not> nullish (images meta)
    \<and> (nullish (kleinboyField [] (mergeFrontmatter inline sidecar) ''description'')
         \<longrightarrow> description meta = JStr (extractDescription (parse env markdownString) None))
    \<and> (nullish (kleinboyField [] (mergeFrontmatter inline sidecar) ''images'')
         \<longrightarrow> images meta = JArr (extractImages (parse env markdownString)))
    \<and> tags meta = (case mergeFrontmatter inline sidecar ''tags'' of
                     Some v \<Rightarrow> v | None \<Rightarrow> JUndefined)
    \<and> (mergeFrontmatter inline sidecar ''tags'' \<noteq> Some JUndefined
         \<longrightarrow> (tags meta = JUndefined) = (''tags'' \<notin> dom (mergeFrontmatter inline sidecar)))"
proof
  show "fst (collectArticle env w config [] markdownPath articlePath fx) = Inr meta"
    unfolding assms(5)
    by (rule collectArticle_succeeds[OF assms(1-4)]) (simp add: inheritableReads_def)
next
  show "\<not> nullish (description meta) \<and> \<not> nullish (images meta)
    \<and> (nullish (kleinboyField [] (mergeFrontmatter inline sidecar) ''description'')
         \<longrightarrow> description meta = JStr (extractDescription (parse env markdownString) None))
    \<and> (nullish (kleinboyField [] (mergeFrontmatter inline sidecar) ''images'')
         \<longrightarrow> images meta = JArr (extractImages (parse env markdownString)))
    \<and> tags meta = (case mergeFrontmatter inline sidecar ''tags'' of
                     Some v \<Rightarrow> v | None \<Rightarrow> JUndefined)
    \<and> (mergeFrontmatter inline sidecar ''tags'' \<noteq> Some JUndefined
         \<longrightarrow> (tags meta = JUndefined) = (''tags'' \<notin> dom (mergeFrontmatter inline sidecar)))"
    unfolding assms(5)
    by (auto simp: articleMetadataOf_def coalesce_def nullish_def getProp_def inherited_def
        split: option.splits)
qed

lemma picture_read: "fsReadFile pictureSite ''articles/pic.md'' = Some ''See ![cat](cat.png)''"
  by (simp add: pictureSite_def siteWith_def)

lemma picture_tree:
  "parse siteEnv ''See ![cat](cat.png)'' = rootNode [paragraphNode [textNode ''See '', imageNode ''cat.png'']]"
  by (simp add: site_defs)

lemma picture_inline:
  "extractFrontmatter siteEnv (rootNode [paragraphNode [textNode ''See '', imageNode ''cat.png'']]) = Inr None"
  by (simp add: node_defs)

lemma picture_sidecar: "findMetadataFrontmatter siteEnv pictureSite ''articles/pic.md'' = Inr None"
  by (simp add: findMetadataFrontmatter_def pictureSite_def siteWith_def replaceMd_def)

lemma picture_dumps:
  "dumpsSucceed siteEnv pictureSite siteConfig ''pic'' (parse siteEnv ''See ![cat](cat.png)'')"
  by (simp add: dumpsSucceed_def siteConfig_def)

theorem collectArticle_defaults_witness:
  "(case fst (collectArticle siteEnv pictureSite siteConfig [] ''articles/pic.md'' ''pic'' []) of
      Inr meta \<Rightarrow> (description meta, images meta, tags meta)
    | Inl e \<Rightarrow> (JUndefined, JUndefined, JUndefined))
     = (JStr ''See ...'', JArr [JStr ''cat.png''], JUndefined)"
  using collectArticle_defaults [OF picture_read picture_inline [folded picture_tree]
      picture_sidecar picture_dumps refl, where fx = "[]"]
  by (simp add: picture_tree kleinboyField_def mergeFrontmatter_def spread_def getProp_def
      inherited_def nullish_def node_defs literalOf_def rejects_def extractDescription_def
      descriptionSource_def notHeading_def replaceEdgeSpace_def replaceSpaceRun_def isSpace_def
      maxLengthOf_def)

section \<open>The article registry: proofs\<close>

lemma set_insertSorted: "set (insertSorted f x ys) = insert x (set ys)"
  by (induction ys) auto

lemma mset_insertSorted: "mset (insertSorted f x ys) = add_mset x (mset ys)"
  by (induction ys) auto

lemma set_arraySort: "set (arraySort f xs) = set xs"
  unfolding arraySort_def by (induction xs) (simp_all add: set_insertSorted)

lemma mset_arraySort: "mset (arraySort f xs) = mset xs"
  unfolding arraySort_def by (induction xs) (simp_all add: mset_insertSorted)

lemma sorted_insertSorted:
  assumes total: "\<And>a b. a \<in> S \<Longrightarrow> b \<in> S \<Longrightarrow> sortCompare f a b \<le> 0 \<or> sortCompare f b a \<le> 0"
    and trans: "\<And>a b c. a \<in> S \<Longrightarrow> b \<in> S \<Longrightarrow> c \<in> S \<Longrightarrow>
        sortCompare f a b \<le> 0 \<Longrightarrow> sortCompare f b c \<le> 0 \<Longrightarrow> sortCompare f a c \<le> 0"
    and "x \<in> S" and "set ys \<subseteq> S"
    and "sorted_wrt (\<lambda>a b. sortCompare f a b \<le> 0) ys"
  shows "sorted_wrt (\<lambda>a b. sortCompare f a b \<le> 0) (insertSorted f x ys)"
  using assms(3-5)
proof (induction ys)
  case Nil
  then show ?case by simp
next
  case (Cons y ys)
  show ?case
  proof (cases "sortCompare f x y \<le> 0")
    case True
    have "sortCompare f x z \<le> 0" if "z \<in> set ys" for z
    proof -
      from Cons.prems that have "sortCompare f y z \<le> 0" "z \<in> S" "y \<in> S" by auto
      with True Cons.prems(1) show ?thesis using trans by blast
    qed
    with True Cons.prems show ?thesis by auto
  next
    case False
    with Cons.prems total[of x y] have yx: "sortCompare f y x \<le> 0" by auto
    from Cons.prems have "sorted_wrt (\<lambda>a b. sortCompare f a b \<le> 0) (insertSorted f x ys)"
      by (intro Cons.IH) auto
    with False yx Cons.prems show ?thesis by (auto simp: set_insertSorted)
  qed
qed

lemma sorted_arraySort:
  assumes total: "\<And>a b. a \<in> set xs \<Longrightarrow> b \<in> set xs \<Longrightarrow>
        sortCompare f a b \<le> 0 \<or> sortCompare f b a \<le> 0"
    and trans: "\<And>a b c. a \<in> set xs \<Longrightarrow> b \<in> set xs \<Longrightarrow> c \<in> set xs \<Longrightarrow>
        sortCompare f a b \<le> 0 \<Longrightarrow> sortCompare f b c \<le> 0 \<Longrightarrow> sortCompare f a c \<le> 0"
  shows "sorted_wrt (\<lambda>a b. sortCompare f a b \<le> 0) (arraySort f xs)"
proof -
  have "set zs \<subseteq> set xs \<Longrightarrow> sorted_wrt (\<lambda>a b. sortCompare f a b \<le> 0) (foldr (insertSorted f) zs [])" for zs
  proof (induction zs)
    case Nil
    then show ?case by simp
  next
    case (Cons z zs)
    have sub: "set (foldr (insertSorted f) zs []) \<subseteq> set xs"
      using Cons.prems set_arraySort[of f zs] by (simp add: arraySort_def)
    from Cons have zin: "z \<in> set xs" and rest: "set zs \<subseteq> set xs" by auto
    from Cons.IH[OF rest]
    have srt: "sorted_wrt (\<lambda>a b. sortCompare f a b \<le> 0) (foldr (insertSorted f) zs [])" .
    have "sorted_wrt (\<lambda>a b. sortCompare f a b \<le> 0)
            (insertSorted f z (foldr (insertSorted f) zs []))"
      by (rule sorted_insertSorted[where S = "set xs", OF total trans zin sub srt])
    then show ?case by simp
  qed
  then show ?thesis by (simp add: arraySort_def)
qed


lemma compare_is_listedBefore:
  assumes "undated a \<or> dateParse env (published_time a) \<noteq> NaN"
    and "undated b \<or> dateParse env (published_time b) \<noteq> NaN"
  shows "(sortCompare (compareArticles env) a b \<le> 0) = listedBefore env a b"
proof (cases "dateParse env (published_time a)")
  case NaN
  with assms show ?thesis
    by (cases "dateParse env (published_time b)")
      (auto simp: sortCompare_def compareArticles_def listedBefore_def undated_def notOlder_def)
next
  case (Finite x)
  then show ?thesis using assms
    by (cases "dateParse env (published_time b)")
      (auto simp: sortCompare_def compareArticles_def listedBefore_def undated_def notOlder_def)
qed

lemma listedBefore_total:
  assumes "consistentOn P (localeCompare env)" "path a \<in> P" "path b \<in> P"
    and "undated a \<or> dateParse env (published_time a) \<noteq> NaN"
    and "undated b \<or> dateParse env (published_time b) \<noteq> NaN"
  shows "listedBefore env a b \<or> listedBefore env b a"
proof -
  from assms(1-3) have "(localeCompare env (path a) (path b) \<le> 0) = (0 \<le> localeCompare env (path b) (path a))"
    unfolding consistentOn_def by blast
  then show ?thesis using assms(4,5)
    by (cases "dateParse env (published_time a)"; cases "dateParse env (published_time b)")
      (auto simp: listedBefore_def notOlder_def)
qed

lemma listedBefore_trans:
  assumes c: "consistentOn P (localeCompare env)" and p: "path a \<in> P" "path b \<in> P" "path c \<in> P"
    and ab: "listedBefore env a b" and bc: "listedBefore env b c"
  shows "listedBefore env a c"
proof (cases "undated a")
  case True
  show ?thesis
  proof (cases "undated c")
    case False
    with True show ?thesis by (simp add: listedBefore_def)
  next
    case uc: True
    with bc have ub: "undated b" by (simp add: listedBefore_def split: if_splits)
    from ab True ub have 1: "0 \<le> localeCompare env (path a) (path b)" by (simp add: listedBefore_def)
    from bc ub uc have 2: "0 \<le> localeCompare env (path b) (path c)" by (simp add: listedBefore_def)
    from c p have sym: "\<And>x y. x \<in> P \<Longrightarrow> y \<in> P \<Longrightarrow> (localeCompare env x y \<le> 0) = (0 \<le> localeCompare env y x)"
      unfolding consistentOn_def by blast
    from c have tr: "\<And>x y z. x \<in> P \<Longrightarrow> y \<in> P \<Longrightarrow> z \<in> P \<Longrightarrow> localeCompare env x y \<le> 0
        \<Longrightarrow> localeCompare env y z \<le> 0 \<Longrightarrow> localeCompare env x z \<le> 0"
      unfolding consistentOn_def by blast
    from 1 2 sym p have "localeCompare env (path c) (path b) \<le> 0" "localeCompare env (path b) (path a) \<le> 0"
      by simp_all
    with tr p have "localeCompare env (path c) (path a) \<le> 0" by blast
    with sym p have "0 \<le> localeCompare env (path a) (path c)" by simp
    with True uc show ?thesis by (simp add: listedBefore_def)
  qed
next
  case False
  with ab have nb: "\<not> undated b" and 1: "notOlder env a b" by (simp_all add: listedBefore_def split: if_splits)
  with bc have nc: "\<not> undated c" and 2: "notOlder env b c" by (simp_all add: listedBefore_def split: if_splits)
  from 1 2 have "notOlder env a c"
    by (auto simp: notOlder_def split: number.splits)
  with False nc show ?thesis by (simp add: listedBefore_def)
qed


lemma path_makeArticleIndex: "path (makeArticleIndex a) = path a"
  by (simp add: makeArticleIndex_def)

lemma collectArticles_ordered:
  assumes "collectArticles env w config fx = (Inr registry, fx')"
  shows "orderedArticles registry
     = arraySort (compareArticles env) (map makeArticleIndex (objectValues (articles registry)))"
  using assms unfolding collectArticles_def
  by (auto split: if_splits prod.splits sum.splits)

text \<open>
  Claim C1, amended. When every date among the collected articles parses, and the
  comparison of paths is consistent on their paths, \<open>orderedArticles\<close> lists every undated
  article before every dated one, the undated ones in descending order of path and the
  dated ones in descending order of parsed date; it is a rearrangement of the indices of
  the collected articles.
\<close>

theorem orderedArticles_sorted:
  assumes run: "collectArticles env w config fx = (Inr registry, fx')"
    and cons: "consistentOn (set (map path (objectValues (articles registry)))) (localeCompare env)"
    and dates: "datesParse env (map makeArticleIndex (objectValues (articles registry)))"
  shows "sorted_wrt (listedBefore env) (orderedArticles registry)
    \<and> mset (orderedArticles registry)
        = mset (map makeArticleIndex (objectValues (articles registry)))"
proof -
  let ?xs = "map makeArticleIndex (objectValues (articles registry))"
  let ?P = "set (map path (objectValues (articles registry)))"
  let ?le = "\<lambda>a b. sortCompare (compareArticles env) a b \<le> 0"
  have ord: "orderedArticles registry = arraySort (compareArticles env) ?xs"
    by (rule collectArticles_ordered[OF run])
  have inP: "path a \<in> ?P" if "a \<in> set ?xs" for a
    using that by (auto simp: path_makeArticleIndex)
  have ok: "undated a \<or> dateParse env (published_time a) \<noteq> NaN" if "a \<in> set ?xs" for a
    using dates that unfolding datesParse_def list_all_iff by blast
  have le_eq: "?le a b = listedBefore env a b" if "a \<in> set ?xs" "b \<in> set ?xs" for a b
    by (rule compare_is_listedBefore[OF ok[OF that(1)] ok[OF that(2)]])
  have total: "?le a b \<or> ?le b a" if "a \<in> set ?xs" "b \<in> set ?xs" for a b
    using listedBefore_total[OF cons inP[OF that(1)] inP[OF that(2)] ok[OF that(1)] ok[OF that(2)]]
      le_eq[OF that] le_eq[OF that(2) that(1)] by simp
  have trans: "?le a c" if "a \<in> set ?xs" "b \<in> set ?xs" "c \<in> set ?xs" "?le a b" "?le b c"
    for a b c
  proof -
    from that have "listedBefore env a b" "listedBefore env b c"
      using le_eq by simp_all
    then have "listedBefore env a c"
      by (rule listedBefore_trans[OF cons inP[OF that(1)] inP[OF that(2)] inP[OF that(3)]])
    with that show ?thesis using le_eq by simp
  qed
  have "sorted_wrt ?le (arraySort (compareArticles env) ?xs)"
    by (rule sorted_arraySort[OF total trans])
  then have "sorted_wrt (listedBefore env) (arraySort (compareArticles env) ?xs)"
    by (rule sorted_wrt_mono_rel[rotated]) (simp add: le_eq set_arraySort)
  then show ?thesis by (simp add: ord mset_arraySort)
qed

lemma dated_run:
  "collectArticles siteEnv datedSite siteConfig [] = (Inr (registryOf siteEnv datedSite siteConfig), [])"
  by code_simp

lemma dated_consistent:
  "consistentOn (set (map path (objectValues (articles (registryOf siteEnv datedSite siteConfig)))))
     (localeCompare siteEnv)"
  by code_simp

lemma dated_parse:
  "datesParse siteEnv (map makeArticleIndex (objectValues (articles (registryOf siteEnv datedSite siteConfig))))"
  by code_simp

lemma dated_order:
  "map (\<lambda>a. (path a, published_time a)) (orderedArticles (registryOf siteEnv datedSite siteConfig))
     = [(''a'', JUndefined), (''c'', JStr ''2021-01-01''), (''b'', JStr ''2020-01-01'')]"
  by code_simp

theorem orderedArticles_sorted_witness:
  "map (\<lambda>a. (path a, published_time a)) (orderedArticles (registryOf siteEnv datedSite siteConfig))
     = [(''a'', JUndefined), (''c'', JStr ''2021-01-01''), (''b'', JStr ''2020-01-01'')]
   \<and> sorted_wrt (listedBefore siteEnv) (orderedArticles (registryOf siteEnv datedSite siteConfig))"
  using orderedArticles_sorted [OF dated_run dated_consistent dated_parse] dated_order
  by simp

text \<open>
  A date that does not parse makes the comparator return \<^verbatim>\<open>NaN\<close>, which the sort takes
  for equality: with the dates 2020, \<^verbatim>\<open>tomorrow\<close> and 2021 in this order no element is
  moved, and the article of 2020 stays before that of 2021.
\<close>

theorem orderedArticles_unparsed_date_counterexample:
  "map (\<lambda>a. (path a, dateParse siteEnv (published_time a)))
       (orderedArticles (registryOf siteEnv misdatedSite siteConfig))
     = [(''a'', Finite 1577836800000), (''b'', NaN), (''c'', Finite 1609459200000)]
   \<and> \<not> sorted_wrt (listedBefore siteEnv) (orderedArticles (registryOf siteEnv misdatedSite siteConfig))"
  by code_simp


section \<open>The tag registry: proofs\<close>

lemma collectArticle_title_defined:
  assumes "collectArticle env w config pr markdownPath articlePath fx = (Inr article, fx')"
  shows "\<not> nullish (title article)"
proof -
  from collectArticle_Inr[OF assms] obtain s i sc where
    "article = articleMetadataOf pr config markdownPath articlePath (mergeFrontmatter i sc)
                 (parse env s)"
    by blast
  then show ?thesis
    by (simp add: articleMetadataOf_def untitledOf_def coalesce_def nullish_def)
qed

lemma map_of_setProp:
  "map_of (setProp obj k v) key
     = (if k = ''__proto__'' then map_of obj key else if key = k then Some v else map_of obj key)"
  by (simp add: setProp_def update_conv')

lemma collectTagPages_entry:
  assumes "collectTagPages env w config pr keys tgs fx = (Inr tgs', fx')"
    and "map_of tgs' key = Some tm"
  shows "map_of tgs key = Some tm
    \<or> (if fsExists w (pathJoin env [tagsDir, key @ ''.md''])
       then \<exists>article fx0 fx1.
              collectArticle env w config pr (pathJoin env [tagsDir, key @ ''.md''])
                (pathJoin env [tagsDir, key]) fx0 = (Inr article, fx1)
              \<and> tm = TagMetadata key (coalesce (title article) (JStr key)) (Some article)
       else tm = TagMetadata key (JStr key) None)"
  using assms
proof (induction keys arbitrary: tgs fx)
  case Nil
  then show ?case by simp
next
  case (Cons k keys)
  let ?page = "pathJoin env [tagsDir, k @ ''.md'']"
  show ?case
  proof (cases "fsExists w ?page")
    case False
    with Cons.prems have run: "collectTagPages env w config pr keys
        (setProp tgs k (TagMetadata k (JStr k) None)) fx = (Inr tgs', fx')"
      by (simp add: Let_def)
    from Cons.IH[OF run Cons.prems(2)] False show ?thesis
      by (auto simp: map_of_setProp split: if_splits)
  next
    case True
    with Cons.prems obtain article fx1 where
      art: "collectArticle env w config pr ?page (pathJoin env [tagsDir, k]) fx
              = (Inr article, fx1)"
      and run: "collectTagPages env w config pr keys
        (setProp tgs k (TagMetadata k (coalesce (title article) (JStr k)) (Some article))) fx1
          = (Inr tgs', fx')"
      by (auto simp: Let_def split: prod.splits sum.splits)
    from Cons.IH[OF run Cons.prems(2)] True art show ?thesis
      by (auto simp: map_of_setProp split: if_splits)
  qed
qed

lemma collectTags_pages:
  assumes "collectTags env w registry config fx = (Inr tr, fx')"
  shows "\<exists>m pr. registerTags env (objectValues (articles registry)) [] [] = Inr (m, pr)
      \<and> tagToArticles tr = m
      \<and> collectTagPages env w config pr (objectKeys m) [] fx = (Inr (registry_tags tr), fx')"
  using assms unfolding collectTags_def
  by (auto split: sum.splits prod.splits)

text \<open>
  A tag with a page is titled by the page, under any state of \<^verbatim>\<open>Object.prototype\<close>:
  the title of a collected page is never missing, so the fallback to the key cannot apply.
\<close>

lemma tag_title_is_page_title:
  assumes run: "collectTags env w registry config fx = (Inr tr, fx')"
    and entry: "map_of (registry_tags tr) key = Some tm"
    and page: "fsExists w (pathJoin env [tagsDir, key @ ''.md''])"
  shows "map_option title (tag_article tm) = Some (tag_title tm) \<and> \<not> nullish (tag_title tm)"
proof -
  from collectTags_pages[OF run] obtain m :: "ArticleIndex object object" and pr where
    pages: "collectTagPages env w config pr (objectKeys m) [] fx = (Inr (registry_tags tr), fx')"
    by blast
  from collectTagPages_entry[OF pages entry] page obtain article fx0 fx1 where
    art: "collectArticle env w config pr (pathJoin env [tagsDir, key @ ''.md''])
            (pathJoin env [tagsDir, key]) fx0 = (Inr article, fx1)"
    and tm: "tm = TagMetadata key (coalesce (title article) (JStr key)) (Some article)"
    by auto
  have "\<not> nullish (title article)"
    by (rule collectArticle_title_defined[OF art])
  with tm show ?thesis by (simp add: coalesce_def)
qed

text \<open>A tag without a page is titled by its key and carries no article.\<close>

lemma tag_without_page:
  assumes run: "collectTags env w registry config fx = (Inr tr, fx')"
    and entry: "map_of (registry_tags tr) key = Some tm"
    and page: "\<not> fsExists w (pathJoin env [tagsDir, key @ ''.md''])"
  shows "tm = TagMetadata key (JStr key) None"
proof -
  from collectTags_pages[OF run] obtain m :: "ArticleIndex object object" and pr where
    pages: "collectTagPages env w config pr (objectKeys m) [] fx = (Inr (registry_tags tr), fx')"
    by blast
  from collectTagPages_entry[OF pages entry] page show ?thesis by simp
qed

text \<open>
  As long as no article carries the tag \<^verbatim>\<open>__proto__\<close>, the registration leaves
  \<^verbatim>\<open>Object.prototype\<close> as it was.
\<close>

lemma register_start:
  assumes "register [] m k1 k2 v = Inr (m', pr')" and "k1 \<noteq> ''__proto__''"
  shows "pr' = []"
  using assms unfolding register_def getOrPrepare_def inherited_def Let_def
  by (auto simp: nullish_def split: option.splits if_splits)

lemma registerEach_start:
  assumes "registerEach article ks m [] = Inr (m', pr')" and "''__proto__'' \<notin> set ks"
  shows "pr' = []"
  using assms
proof (induction ks arbitrary: m)
  case Nil
  then show ?case by simp
next
  case (Cons k ks)
  from Cons.prems obtain m1 pr1 where
    step: "register [] m k (path article) (makeArticleIndex article) = Inr (m1, pr1)"
    and rest: "registerEach article ks m1 pr1 = Inr (m', pr')"
    by (auto split: sum.splits)
  from Cons.prems have "k \<noteq> ''__proto__''" by auto
  from register_start[OF step this] have "pr1 = []" .
  with rest Cons.prems Cons.IH show ?case by auto
qed

lemma registerTags_start:
  assumes "registerTags env as m [] = Inr (m', pr')"
    and "list_all (\<lambda>article. ''__proto__'' \<notin> set (tagsOfArticle env article)) as"
  shows "pr' = []"
  using assms
proof (induction as arbitrary: m)
  case Nil
  then show ?case by simp
next
  case (Cons a as)
  show ?case
  proof (cases "nullish (tags a)")
    case True
    with Cons show ?thesis by simp
  next
    case False
    with Cons.prems obtain ks m1 pr1 where
      ks: "tagKeys env (tags a) = Inr ks"
      and each: "registerEach a ks m [] = Inr (m1, pr1)"
      and rest: "registerTags env as m1 pr1 = Inr (m', pr')"
      by (auto split: sum.splits)
    from Cons.prems(2) False ks have "''__proto__'' \<notin> set ks"
      by (simp add: tagsOfArticle_def)
    from registerEach_start[OF each this] have "pr1 = []" .
    with rest Cons.prems Cons.IH show ?thesis by auto
  qed
qed

text \<open>
  So as long as no article carries the tag \<^verbatim>\<open>__proto__\<close>, a tag whose page has neither
  a heading nor a title in its frontmatter is titled by the configured default,
  \<^verbatim>\<open>(Untitled)\<close> when none is configured.
\<close>

lemma tag_title_of_page:
  assumes run: "collectTags env w registry config fx = (Inr tr, fx')"
    and clean: "prototypeUntouched env registry"
    and entry: "map_of (registry_tags tr) key = Some tm"
    and page: "fsExists w (pathJoin env [tagsDir, key @ ''.md''])"
    and read: "fsReadFile w (pathJoin env [tagsDir, key @ ''.md'']) = Some markdownString"
    and inline: "extractFrontmatter env (parse env markdownString) = Inr inline"
    and sidecar: "findMetadataFrontmatter env w (pathJoin env [tagsDir, key @ ''.md'']) = Inr sidecar"
    and untitled: "nullish (kleinboyField [] (mergeFrontmatter inline sidecar) ''title'')"
    and noHeading: "firstHeading (parse env markdownString) = None"
  shows "tag_title tm = JStr (case untitled config of Some u \<Rightarrow> u | None \<Rightarrow> ''(Untitled)'')"
proof -
  from collectTags_pages[OF run] obtain m :: "ArticleIndex object object" and pr where
    reg: "registerTags env (objectValues (articles registry)) [] [] = Inr (m, pr)"
    and pages: "collectTagPages env w config pr (objectKeys m) [] fx = (Inr (registry_tags tr), fx')"
    by blast
  from registerTags_start[OF reg] clean have pr: "pr = []"
    by (simp add: prototypeUntouched_def)
  from collectTagPages_entry[OF pages entry] page obtain article fx0 fx1 where
    art: "collectArticle env w config [] (pathJoin env [tagsDir, key @ ''.md''])
            (pathJoin env [tagsDir, key]) fx0 = (Inr article, fx1)"
    and tm: "tm = TagMetadata key (coalesce (title article) (JStr key)) (Some article)"
    unfolding pr by auto
  have "\<not> nullish (title article)"
    by (rule collectArticle_title_defined[OF art])
  then have t: "tag_title tm = title article" using tm by (simp add: coalesce_def)
  have "title article = JStr (case untitled config of Some u \<Rightarrow> u | None \<Rightarrow> ''(Untitled)'')"
    unfolding collectArticle_meta[OF art read inline sidecar] title_articleMetadataOf
    using untitled noHeading by simp
  with t show ?thesis by simp
qed

text \<open>
  A site where this applies: an article \<^verbatim>\<open>p1\<close> tagged \<^verbatim>\<open>go\<close>, and a page
  \<^verbatim>\<open>tags/go.md\<close> with a paragraph and no heading.
\<close>

lemma untitled_tag_example:
  "map (\<lambda>(k, t). (k, tag_title t, map_option title (tag_article t)))
       (registry_tags (tagRegistryOf siteEnv untitledTagSite siteConfig))
     = [(''go'', JStr ''(Untitled)'', Some (JStr ''(Untitled)''))]"
  by code_simp

text \<open>
  Claim C10. The tag \<^verbatim>\<open>__proto__\<close> makes \<open>register\<close> write the index of the article
  onto \<^verbatim>\<open>Object.prototype\<close>, under the path of the article. For an article at
  \<^verbatim>\<open>articles/untitled.md\<close> tagged \<^verbatim>\<open>__proto__\<close> and \<^verbatim>\<open>go\<close>, every plain object
  then has a property \<^verbatim>\<open>untitled\<close>, the configuration included, and the page
  \<^verbatim>\<open>tags/go.md\<close>, which has neither a heading nor a title in its frontmatter, is titled
  by that index instead of the default \<^verbatim>\<open>(Untitled)\<close>. The title is still that of the
  collected page, not the key.
\<close>

theorem polluted_tag_title:
  "map (\<lambda>(k, a). (k, tags a)) (articles (registryOf siteEnv pollutedSite siteConfig))
     = [(''untitled'', JArr [JStr ''__proto__'', JStr ''go''])]
   \<and> untitled siteConfig = None
   \<and> firstHeading (parse siteEnv ''All about Go.'') = None
   \<and> map (\<lambda>(k, t). (k, tag_title t, map_option title (tag_article t)))
       (registry_tags (tagRegistryOf siteEnv pollutedSite siteConfig))
     = [(''go'',
         JObj [(''path'', JStr ''untitled''), (''status'', JUndefined),
               (''published_time'', JUndefined)],
         Some (JObj [(''path'', JStr ''untitled''), (''status'', JUndefined),
                     (''published_time'', JUndefined)]))]"
  by code_simp

text \<open>
  Claim C7. The dictionary of tags is a plain object, and \<^verbatim>\<open>getOrPrepare\<close> takes the
  property inherited from \<^verbatim>\<open>Object.prototype\<close> for an entry that is already there. An
  article tagged \<^verbatim>\<open>constructor\<close> is therefore registered nowhere: both \<open>tags\<close> and
  \<open>tagToArticles\<close> stay empty, although the tag appears in a collected article.
\<close>

theorem constructor_tag_is_lost:
  "map (\<lambda>(k, a). (k, tags a)) (articles (registryOf siteEnv constructorSite siteConfig))
     = [(''p1'', JArr [JStr ''constructor''])]
   \<and> fst (collectTags siteEnv constructorSite (registryOf siteEnv constructorSite siteConfig)
          siteConfig [])
     = Inr \<lparr>registry_tags = [], tagToArticles = []\<rparr>"
  by code_simp

text \<open>
  The example of the specification: an article \<^verbatim>\<open>p1\<close> tagged \<^verbatim>\<open>go\<close> and a page
  \<^verbatim>\<open>tags/go.md\<close> headed \<^verbatim>\<open>Go Lang\<close>.
\<close>

lemma tagged_site_example:
  "map (\<lambda>(k, t). (k, tag_title t)) (registry_tags (tagRegistryOf siteEnv taggedSite siteConfig))
     = [(''go'', JStr ''Go Lang'')]
   \<and> map_option (map_option path \<circ> (\<lambda>ps. map_of ps ''p1''))
         (map_of (tagToArticles (tagRegistryOf siteEnv taggedSite siteConfig)) ''go'')
     = Some (Some ''p1'')"
  by code_simp


section \<open>The run: proofs\<close>

lemma parsed_error: "parsed r = Inl e \<Longrightarrow> e \<noteq> ArticlesMissing"
  by (auto simp: parsed_def split: sum.splits)

lemma extractFrontmatter_error:
  "extractFrontmatter env n = Inl e \<Longrightarrow> e \<noteq> ArticlesMissing"
  "extractFrontmatterIn env ns = Inl e \<Longrightarrow> e \<noteq> ArticlesMissing"
proof (induction env n and env ns rule: extractFrontmatter_extractFrontmatterIn.induct)
  case (1 env ty val url cs)
  then show ?case
    by (auto dest: parsed_error split: if_splits option.splits)
next
  case (2 env)
  then show ?case by simp
next
  case (3 env child children)
  then show ?case by (auto split: sum.splits option.splits)
qed

lemma probeMetadata_error:
  "probeMetadata env w markdownPath exts = Inl e \<Longrightarrow> e \<noteq> ArticlesMissing"
  by (induction exts) (auto simp: Let_def dest: parsed_error split: if_splits option.splits)

lemma findMetadataFrontmatter_error:
  "findMetadataFrontmatter env w markdownPath = Inl e \<Longrightarrow> e \<noteq> ArticlesMissing"
  unfolding findMetadataFrontmatter_def by (rule probeMetadata_error)

lemma dumpAST_error: "dumpAST env w a t fx = (Inl e, fx') \<Longrightarrow> e \<noteq> ArticlesMissing"
  by (auto simp: dumpAST_def Let_def split: if_splits)

lemma dumpHTML_error: "dumpHTML env w a t fx = (Inl e, fx') \<Longrightarrow> e \<noteq> ArticlesMissing"
  by (auto simp: dumpHTML_def Let_def split: if_splits sum.splits)

lemma collectArticle_error:
  assumes "collectArticle env w config pr markdownPath articlePath fx = (Inl e, fx')"
  shows "e \<noteq> ArticlesMissing"
  using assms unfolding collectArticle_def Let_def
  by (auto dest: extractFrontmatter_error(1) findMetadataFrontmatter_error dumpAST_error
      dumpHTML_error
      split: option.splits sum.splits prod.splits if_splits)

lemma collectEach_error:
  "collectEach env w config paths result fx = (Inl e, fx') \<Longrightarrow> e \<noteq> ArticlesMissing"
proof (induction paths arbitrary: result fx)
  case Nil
  then show ?case by simp
next
  case (Cons p paths)
  then show ?case
    by (auto dest: collectArticle_error split: prod.splits sum.splits)
qed

text \<open>
  Claim C8, amended. When the articles directory does not exist, \<open>collectArticles\<close> and
  the whole run fail with the error \<^verbatim>\<open>articles doesn't exist\<close> and leave the effects as
  they were: nothing is read, collected or written. \<open>collectArticles\<close> raises this error
  in exactly that case; its other failures are those of reading a file, parsing frontmatter
  and writing a debug dump.
\<close>

theorem missing_root_aborts:
  "(\<not> fsExists w articlesDir \<longrightarrow>
      collectArticles env w config fx = (Inl ArticlesMissing, fx)
      \<and> execute env w config fx = (Inl ArticlesMissing, fx))
   \<and> ((fst (collectArticles env w config fx) = Inl ArticlesMissing) = (\<not> fsExists w articlesDir))"
proof -
  have a: "collectArticles env w config fx = (Inl ArticlesMissing, fx)" if "\<not> fsExists w articlesDir"
    using that by (simp add: collectArticles_def)
  have b: "fst (collectArticles env w config fx) \<noteq> Inl ArticlesMissing" if "fsExists w articlesDir"
    using that unfolding collectArticles_def
    by (auto dest: collectEach_error split: prod.splits sum.splits)
  show ?thesis using a b by (auto simp: execute_def)
qed

theorem missing_root_aborts_witness:
  "execute siteEnv emptyDisk siteConfig [] = (Inl ArticlesMissing, [])
   \<and> fst (collectArticles siteEnv datedSite siteConfig []) \<noteq> Inl ArticlesMissing"
  using missing_root_aborts [of emptyDisk siteEnv siteConfig "[]"]
    missing_root_aborts [of datedSite siteEnv siteConfig "[]"]
  by (simp add: emptyDisk_def datedSite_def siteWith_def articlesDir_def)

text \<open>
  The missing directory is not the only case in which \<open>collectArticles\<close> raises: with
  the directory present, an article whose frontmatter block is malformed makes it fail with
  the syntax error of the YAML loader.
\<close>

theorem malformed_frontmatter_counterexample:
  "fsExists brokenSite articlesDir
   \<and> fst (collectArticles siteEnv brokenSite siteConfig [])
       = Inl (SyntaxError ''bad indentation or unexpected end of the stream'')"
  by code_simp


end
